theory Spec2Isabelle
  imports Complex_Main
begin

section \<open>The vmath binding layer of \<^verbatim>\<open>packages/core/src/vmath.ts\<close>\<close>

text \<open>
  The module wraps the host's vector, quaternion and matrix values in four classes
  (\<^verbatim>\<open>Vector3\<close>, \<^verbatim>\<open>Vector4\<close>, \<^verbatim>\<open>Quaternion\<close>, \<^verbatim>\<open>Matrix4\<close>), each
  with one field \<^verbatim>\<open>data\<close> holding the host value, and emulates the arithmetic operators
  by functions that read the components through getters and build a new instance.

  Numbers. A JavaScript \<^verbatim>\<open>number\<close> is a type parameter \<open>'a\<close> here, and the operators
  \<open>+\<close>, \<open>-\<close>, \<open>*\<close>, \<open>/\<close> are the ones of the syntactic classes \<open>plus\<close>, \<open>minus\<close>,
  \<open>times\<close>, \<open>inverse\<close>, which come with no law at all. Every expression keeps the
  operand order and the (left to right) association of the source. A theorem stated at
  such a sort therefore holds for any interpretation of the operators, rounding ones
  included; a lemma that needs the laws of exact arithmetic says so in the sort of its
  type variable (\<open>ring_1\<close>). Where the special values of IEEE 754 decide a property,
  it is stated on the carrier \<open>number\<close> defined further down.
\<close>

subsection \<open>Errors\<close>

text \<open>
  \<^verbatim>\<open>throw TypeError('...')\<close> is \<open>Inl (TypeError ''...'')\<close>. Reading a property of
  \<^verbatim>\<open>undefined\<close> is raised by the runtime itself (also a \<^verbatim>\<open>TypeError\<close>, with a text
  of the engine's choosing); it is kept apart as \<open>ReadOfUndefined\<close>.
\<close>

datatype error = TypeError string | ReadOfUndefined

subsection \<open>The host values (\<^verbatim>\<open>Vector3.Data\<close>, \<^verbatim>\<open>Vector4.Data\<close>, \<^verbatim>\<open>Quaternion.Data\<close>)\<close>

record 'a Vector3_Data =
  V3x :: 'a
  V3y :: 'a
  V3z :: 'a

record 'a Vector4_Data =
  V4x :: 'a
  V4y :: 'a
  V4z :: 'a
  V4w :: 'a

record 'a Quaternion_Data =
  Qx :: 'a
  Qy :: 'a
  Qz :: 'a
  Qw :: 'a

subsection \<open>Class \<^verbatim>\<open>Vector3\<close>\<close>

text \<open>
  An instance is its \<^verbatim>\<open>data\<close> field; the getters read through it, and a setter
  gives the instance with the field of its host value replaced. (Which object a setter
  writes to is the subject of the store further down.)
\<close>

datatype 'a Vector3 = Vector3 (Vector3_data: "'a Vector3_Data")

definition Vector3_x :: "'a Vector3 \<Rightarrow> 'a" where
  "Vector3_x v = V3x (Vector3_data v)"

definition Vector3_y :: "'a Vector3 \<Rightarrow> 'a" where
  "Vector3_y v = V3y (Vector3_data v)"

definition Vector3_z :: "'a Vector3 \<Rightarrow> 'a" where
  "Vector3_z v = V3z (Vector3_data v)"

definition Vector3_set_x :: "'a Vector3 \<Rightarrow> 'a \<Rightarrow> 'a Vector3" where
  "Vector3_set_x v n = Vector3 ((Vector3_data v)\<lparr>V3x := n\<rparr>)"

definition Vector3_set_y :: "'a Vector3 \<Rightarrow> 'a \<Rightarrow> 'a Vector3" where
  "Vector3_set_y v n = Vector3 ((Vector3_data v)\<lparr>V3y := n\<rparr>)"

definition Vector3_set_z :: "'a Vector3 \<Rightarrow> 'a \<Rightarrow> 'a Vector3" where
  "Vector3_set_z v n = Vector3 ((Vector3_data v)\<lparr>V3z := n\<rparr>)"

text \<open>
  The five declared signatures of the constructor. For the first four the constructor
  calls the host's \<^verbatim>\<open>lua.vmath.vector3(1, x, y, z)\<close>, which is not part of the
  repository: its result is written here as the doc comments of the signatures give it
  (zero vector, splat, copy, components). For the last one the instance takes the host
  value as it is (\<^verbatim>\<open>this.data = x\<close>).
\<close>

datatype 'a Vector3_args =
    V3_none
  | V3_splat 'a
  | V3_copy "'a Vector3"
  | V3_xyz 'a 'a 'a
  | V3_data "'a Vector3_Data"

fun Vector3_new :: "'a::zero Vector3_args \<Rightarrow> 'a Vector3" where
  "Vector3_new V3_none = Vector3 \<lparr>V3x = 0, V3y = 0, V3z = 0\<rparr>"
| "Vector3_new (V3_splat n) = Vector3 \<lparr>V3x = n, V3y = n, V3z = n\<rparr>"
| "Vector3_new (V3_copy v) =
     Vector3 \<lparr>V3x = Vector3_x v, V3y = Vector3_y v, V3z = Vector3_z v\<rparr>"
| "Vector3_new (V3_xyz a b c) = Vector3 \<lparr>V3x = a, V3y = b, V3z = c\<rparr>"
| "Vector3_new (V3_data d) = Vector3 d"

definition Vector3_add :: "'a::{zero,plus} Vector3 \<Rightarrow> 'a Vector3 \<Rightarrow> 'a Vector3" where
  "Vector3_add v1 v2 =
     Vector3_new (V3_xyz (Vector3_x v1 + Vector3_x v2) (Vector3_y v1 + Vector3_y v2)
                         (Vector3_z v1 + Vector3_z v2))"

definition Vector3_sub :: "'a::{zero,minus} Vector3 \<Rightarrow> 'a Vector3 \<Rightarrow> 'a Vector3" where
  "Vector3_sub v1 v2 =
     Vector3_new (V3_xyz (Vector3_x v1 - Vector3_x v2) (Vector3_y v1 - Vector3_y v2)
                         (Vector3_z v1 - Vector3_z v2))"

definition Vector3_neg :: "'a::{zero,uminus} Vector3 \<Rightarrow> 'a Vector3" where
  "Vector3_neg v1 = Vector3_new (V3_xyz (- Vector3_x v1) (- Vector3_y v1) (- Vector3_z v1))"

definition Vector3_mul :: "'a::{zero,times} Vector3 \<Rightarrow> 'a \<Rightarrow> 'a Vector3" where
  "Vector3_mul v1 n = Vector3_new (V3_xyz (Vector3_x v1 * n) (Vector3_y v1 * n) (Vector3_z v1 * n))"

definition Vector3_div :: "'a::{zero,one,times,inverse} Vector3 \<Rightarrow> 'a \<Rightarrow> 'a Vector3" where
  "Vector3_div v1 n = Vector3_mul v1 (1 / n)"

subsection \<open>Class \<^verbatim>\<open>Vector4\<close>\<close>

datatype 'a Vector4 = Vector4 (Vector4_data: "'a Vector4_Data")

definition Vector4_x :: "'a Vector4 \<Rightarrow> 'a" where
  "Vector4_x v = V4x (Vector4_data v)"

definition Vector4_y :: "'a Vector4 \<Rightarrow> 'a" where
  "Vector4_y v = V4y (Vector4_data v)"

definition Vector4_z :: "'a Vector4 \<Rightarrow> 'a" where
  "Vector4_z v = V4z (Vector4_data v)"

definition Vector4_w :: "'a Vector4 \<Rightarrow> 'a" where
  "Vector4_w v = V4w (Vector4_data v)"

datatype 'a Vector4_args =
    V4_none
  | V4_splat 'a
  | V4_copy "'a Vector4"
  | V4_xyzw 'a 'a 'a 'a
  | V4_data "'a Vector4_Data"

fun Vector4_new :: "'a::zero Vector4_args \<Rightarrow> 'a Vector4" where
  "Vector4_new V4_none = Vector4 \<lparr>V4x = 0, V4y = 0, V4z = 0, V4w = 0\<rparr>"
| "Vector4_new (V4_splat n) = Vector4 \<lparr>V4x = n, V4y = n, V4z = n, V4w = n\<rparr>"
| "Vector4_new (V4_copy v) =
     Vector4 \<lparr>V4x = Vector4_x v, V4y = Vector4_y v, V4z = Vector4_z v, V4w = Vector4_w v\<rparr>"
| "Vector4_new (V4_xyzw a b c d) = Vector4 \<lparr>V4x = a, V4y = b, V4z = c, V4w = d\<rparr>"
| "Vector4_new (V4_data d) = Vector4 d"

definition Vector4_add :: "'a::{zero,plus} Vector4 \<Rightarrow> 'a Vector4 \<Rightarrow> 'a Vector4" where
  "Vector4_add v1 v2 =
     Vector4_new (V4_xyzw (Vector4_x v1 + Vector4_x v2) (Vector4_y v1 + Vector4_y v2)
                          (Vector4_z v1 + Vector4_z v2) (Vector4_w v1 + Vector4_w v2))"

definition Vector4_sub :: "'a::{zero,minus} Vector4 \<Rightarrow> 'a Vector4 \<Rightarrow> 'a Vector4" where
  "Vector4_sub v1 v2 =
     Vector4_new (V4_xyzw (Vector4_x v1 - Vector4_x v2) (Vector4_y v1 - Vector4_y v2)
                          (Vector4_z v1 - Vector4_z v2) (Vector4_w v1 - Vector4_w v2))"

definition Vector4_neg :: "'a::{zero,uminus} Vector4 \<Rightarrow> 'a Vector4" where
  "Vector4_neg v1 =
     Vector4_new (V4_xyzw (- Vector4_x v1) (- Vector4_y v1) (- Vector4_z v1) (- Vector4_w v1))"

definition Vector4_mul :: "'a::{zero,times} Vector4 \<Rightarrow> 'a \<Rightarrow> 'a Vector4" where
  "Vector4_mul v1 n =
     Vector4_new (V4_xyzw (Vector4_x v1 * n) (Vector4_y v1 * n) (Vector4_z v1 * n)
                          (Vector4_w v1 * n))"

definition Vector4_div :: "'a::{zero,one,times,inverse} Vector4 \<Rightarrow> 'a \<Rightarrow> 'a Vector4" where
  "Vector4_div v1 n = Vector4_mul v1 (1 / n)"

subsection \<open>Class \<^verbatim>\<open>Quaternion\<close>\<close>

datatype 'a Quaternion = Quaternion (Quaternion_data: "'a Quaternion_Data")

definition Quaternion_x :: "'a Quaternion \<Rightarrow> 'a" where
  "Quaternion_x q = Qx (Quaternion_data q)"

definition Quaternion_y :: "'a Quaternion \<Rightarrow> 'a" where
  "Quaternion_y q = Qy (Quaternion_data q)"

definition Quaternion_z :: "'a Quaternion \<Rightarrow> 'a" where
  "Quaternion_z q = Qz (Quaternion_data q)"

definition Quaternion_w :: "'a Quaternion \<Rightarrow> 'a" where
  "Quaternion_w q = Qw (Quaternion_data q)"

text \<open>
  The four declared signatures: no argument (the identity quaternion \<open>(0, 0, 0, 1)\<close>, by
  the doc comment of \<^verbatim>\<open>lua.vmath.quat\<close>'s caller), a quaternion to copy, four
  components, or a host value.
\<close>

datatype 'a Quaternion_args =
    Q_none
  | Q_copy "'a Quaternion"
  | Q_xyzw 'a 'a 'a 'a
  | Q_data "'a Quaternion_Data"

fun Quaternion_new :: "'a::{zero,one} Quaternion_args \<Rightarrow> 'a Quaternion" where
  "Quaternion_new Q_none = Quaternion \<lparr>Qx = 0, Qy = 0, Qz = 0, Qw = 1\<rparr>"
| "Quaternion_new (Q_copy q) =
     Quaternion \<lparr>Qx = Quaternion_x q, Qy = Quaternion_y q, Qz = Quaternion_z q,
                 Qw = Quaternion_w q\<rparr>"
| "Quaternion_new (Q_xyzw a b c d) = Quaternion \<lparr>Qx = a, Qy = b, Qz = c, Qw = d\<rparr>"
| "Quaternion_new (Q_data d) = Quaternion d"

definition Quaternion_mul ::
  "'a::{zero,one,plus,minus,times} Quaternion \<Rightarrow> 'a Quaternion \<Rightarrow> 'a Quaternion" where
  "Quaternion_mul q1 q2 =
     (let x1 = Quaternion_x q1; y1 = Quaternion_y q1; z1 = Quaternion_z q1; w1 = Quaternion_w q1;
          x2 = Quaternion_x q2; y2 = Quaternion_y q2; z2 = Quaternion_z q2; w2 = Quaternion_w q2
      in Quaternion_new (Q_xyzw
           (w1 * x2 + x1 * w2 + y1 * z2 - z1 * y2)
           (w1 * y2 + y1 * w2 + z1 * x2 - x1 * z2)
           (w1 * z2 + z1 * w2 + x1 * y2 - y1 * x2)
           (w1 * w2 - x1 * x2 - y1 * y2 - z1 * z2)))"

subsection \<open>Class \<^verbatim>\<open>Matrix4\<close>\<close>

text \<open>
  Modelled from the spec: the host's matrix value (\<^verbatim>\<open>Matrix4.Data\<close>), which the source
  only declares as a type with the fields \<^verbatim>\<open>c0..c3\<close> and \<^verbatim>\<open>m00..m33\<close>. By the spec
  it is ``4 column vectors, equivalently 16 scalar components \<^verbatim>\<open>m00..m33\<close>'' in
  column-major layout: one value behind two views. Which scalar is which entry is said
  neither by the spec nor by the source. The model reads the first digit as the column,
  so that column \<open>i\<close> is \<open>(mi0, mi1, mi2, mi3)\<close> and the scalars in the order of their
  names are the columns one after the other; with the first digit as the row, every
  product below would be the one with the transposed matrices. The record holds the 16
  scalars; \<open>Data_c0\<close> .. \<open>Data_c3\<close> read a column and \<open>Data_set_c0\<close> ..
  \<open>Data_set_c3\<close> write one.
\<close>

record 'a Matrix4_Data =
  m00 :: 'a
  m01 :: 'a
  m02 :: 'a
  m03 :: 'a
  m10 :: 'a
  m11 :: 'a
  m12 :: 'a
  m13 :: 'a
  m20 :: 'a
  m21 :: 'a
  m22 :: 'a
  m23 :: 'a
  m30 :: 'a
  m31 :: 'a
  m32 :: 'a
  m33 :: 'a

definition Data_c0 :: "'a Matrix4_Data \<Rightarrow> 'a Vector4_Data" where
  "Data_c0 d = \<lparr>V4x = m00 d, V4y = m01 d, V4z = m02 d, V4w = m03 d\<rparr>"

definition Data_c1 :: "'a Matrix4_Data \<Rightarrow> 'a Vector4_Data" where
  "Data_c1 d = \<lparr>V4x = m10 d, V4y = m11 d, V4z = m12 d, V4w = m13 d\<rparr>"

definition Data_c2 :: "'a Matrix4_Data \<Rightarrow> 'a Vector4_Data" where
  "Data_c2 d = \<lparr>V4x = m20 d, V4y = m21 d, V4z = m22 d, V4w = m23 d\<rparr>"

definition Data_c3 :: "'a Matrix4_Data \<Rightarrow> 'a Vector4_Data" where
  "Data_c3 d = \<lparr>V4x = m30 d, V4y = m31 d, V4z = m32 d, V4w = m33 d\<rparr>"

definition Data_set_c0 :: "'a Matrix4_Data \<Rightarrow> 'a Vector4_Data \<Rightarrow> 'a Matrix4_Data" where
  "Data_set_c0 d c = d\<lparr>m00 := V4x c, m01 := V4y c, m02 := V4z c, m03 := V4w c\<rparr>"

definition Data_set_c1 :: "'a Matrix4_Data \<Rightarrow> 'a Vector4_Data \<Rightarrow> 'a Matrix4_Data" where
  "Data_set_c1 d c = d\<lparr>m10 := V4x c, m11 := V4y c, m12 := V4z c, m13 := V4w c\<rparr>"

definition Data_set_c2 :: "'a Matrix4_Data \<Rightarrow> 'a Vector4_Data \<Rightarrow> 'a Matrix4_Data" where
  "Data_set_c2 d c = d\<lparr>m20 := V4x c, m21 := V4y c, m22 := V4z c, m23 := V4w c\<rparr>"

definition Data_set_c3 :: "'a Matrix4_Data \<Rightarrow> 'a Vector4_Data \<Rightarrow> 'a Matrix4_Data" where
  "Data_set_c3 d c = d\<lparr>m30 := V4x c, m31 := V4y c, m32 := V4z c, m33 := V4w c\<rparr>"

text \<open>
  The host's \<^verbatim>\<open>lua.vmath.matrix4(1)\<close>: ``the resulting identity matrix'', by the doc
  comment of the constructor.
\<close>

definition lua_vmath_matrix4 :: "'a::{zero,one} Matrix4_Data" where
  "lua_vmath_matrix4 =
     \<lparr>m00 = 1, m01 = 0, m02 = 0, m03 = 0,
      m10 = 0, m11 = 1, m12 = 0, m13 = 0,
      m20 = 0, m21 = 0, m22 = 1, m23 = 0,
      m30 = 0, m31 = 0, m32 = 0, m33 = 1\<rparr>"

text \<open>
  The \<^verbatim>\<open>data\<close> field of a \<^verbatim>\<open>Matrix4\<close> can be \<^verbatim>\<open>undefined\<close>: the constructor tests
  \<^verbatim>\<open>x instanceof Matrix4\<close>, then \<^verbatim>\<open>x instanceof Vector4\<close>, and otherwise stores \<^verbatim>\<open>x\<close>,
  also when no argument was given. So the field is an option, and every getter and
  setter, which reads a property of \<^verbatim>\<open>this.data\<close>, fails on \<open>None\<close>.
\<close>

datatype 'a Matrix4 = Matrix4 (Matrix4_data: "'a Matrix4_Data option")

definition and_then :: "error + 'b \<Rightarrow> ('b \<Rightarrow> error + 'c) \<Rightarrow> error + 'c" where
  "and_then r f = (case r of Inl e \<Rightarrow> Inl e | Inr v \<Rightarrow> f v)"

text \<open>The scalar getters \<^verbatim>\<open>get m00()\<close> .. \<^verbatim>\<open>get m33()\<close>, by the field they read.\<close>

definition Matrix4_get :: "('a Matrix4_Data \<Rightarrow> 'a) \<Rightarrow> 'a Matrix4 \<Rightarrow> error + 'a" where
  "Matrix4_get field m =
     (case Matrix4_data m of None \<Rightarrow> Inl ReadOfUndefined | Some d \<Rightarrow> Inr (field d))"

text \<open>
  \<^verbatim>\<open>get c0(): Vector4 { return new Vector4(this.data.c0); }\<close> and
  \<^verbatim>\<open>set c0(c0) { this.data.c0 = c0; }\<close>, where the host stores the components of the
  vector it is given.
\<close>

definition Matrix4_c0 :: "'a::zero Matrix4 \<Rightarrow> error + 'a Vector4" where
  "Matrix4_c0 m =
     (case Matrix4_data m of None \<Rightarrow> Inl ReadOfUndefined
      | Some d \<Rightarrow> Inr (Vector4_new (V4_data (Data_c0 d))))"

definition Matrix4_c1 :: "'a::zero Matrix4 \<Rightarrow> error + 'a Vector4" where
  "Matrix4_c1 m =
     (case Matrix4_data m of None \<Rightarrow> Inl ReadOfUndefined
      | Some d \<Rightarrow> Inr (Vector4_new (V4_data (Data_c1 d))))"

definition Matrix4_c2 :: "'a::zero Matrix4 \<Rightarrow> error + 'a Vector4" where
  "Matrix4_c2 m =
     (case Matrix4_data m of None \<Rightarrow> Inl ReadOfUndefined
      | Some d \<Rightarrow> Inr (Vector4_new (V4_data (Data_c2 d))))"

definition Matrix4_c3 :: "'a::zero Matrix4 \<Rightarrow> error + 'a Vector4" where
  "Matrix4_c3 m =
     (case Matrix4_data m of None \<Rightarrow> Inl ReadOfUndefined
      | Some d \<Rightarrow> Inr (Vector4_new (V4_data (Data_c3 d))))"

definition Matrix4_set_c0 :: "'a Matrix4 \<Rightarrow> 'a Vector4 \<Rightarrow> error + 'a Matrix4" where
  "Matrix4_set_c0 m c =
     (case Matrix4_data m of None \<Rightarrow> Inl ReadOfUndefined
      | Some d \<Rightarrow> Inr (Matrix4 (Some (Data_set_c0 d (Vector4_data c)))))"

definition Matrix4_set_c1 :: "'a Matrix4 \<Rightarrow> 'a Vector4 \<Rightarrow> error + 'a Matrix4" where
  "Matrix4_set_c1 m c =
     (case Matrix4_data m of None \<Rightarrow> Inl ReadOfUndefined
      | Some d \<Rightarrow> Inr (Matrix4 (Some (Data_set_c1 d (Vector4_data c)))))"

definition Matrix4_set_c2 :: "'a Matrix4 \<Rightarrow> 'a Vector4 \<Rightarrow> error + 'a Matrix4" where
  "Matrix4_set_c2 m c =
     (case Matrix4_data m of None \<Rightarrow> Inl ReadOfUndefined
      | Some d \<Rightarrow> Inr (Matrix4 (Some (Data_set_c2 d (Vector4_data c)))))"

definition Matrix4_set_c3 :: "'a Matrix4 \<Rightarrow> 'a Vector4 \<Rightarrow> error + 'a Matrix4" where
  "Matrix4_set_c3 m c =
     (case Matrix4_data m of None \<Rightarrow> Inl ReadOfUndefined
      | Some d \<Rightarrow> Inr (Matrix4 (Some (Data_set_c3 d (Vector4_data c)))))"

text \<open>
  The four declared signatures of the constructor: no argument, a matrix to copy (the
  host's \<^verbatim>\<open>lua.vmath.matrix4(1, x)\<close>, a copy by the doc comment), a host value, or four
  columns, which are assigned through the setters to a fresh identity matrix.
\<close>

datatype 'a Matrix4_args =
    M4_none
  | M4_copy "'a Matrix4"
  | M4_data "'a Matrix4_Data"
  | M4_cols "'a Vector4" "'a Vector4" "'a Vector4" "'a Vector4"

fun Matrix4_new :: "'a::{zero,one} Matrix4_args \<Rightarrow> error + 'a Matrix4" where
  "Matrix4_new (M4_copy x) = Inr (Matrix4 (Matrix4_data x))"
| "Matrix4_new (M4_cols x y z w) =
     and_then (Matrix4_set_c0 (Matrix4 (Some lua_vmath_matrix4)) x) (\<lambda>this.
     and_then (Matrix4_set_c1 this y) (\<lambda>this.
     and_then (Matrix4_set_c2 this z) (\<lambda>this.
     Matrix4_set_c3 this w)))"
| "Matrix4_new (M4_data d) = Inr (Matrix4 (Some d))"
| "Matrix4_new M4_none = Inr (Matrix4 None)"

text \<open>
  \<^verbatim>\<open>Matrix4.mul(m1, xn)\<close> has three signatures and one body that branches on the class
  of \<^verbatim>\<open>xn\<close>. Each branch is a function of its own here, since the first branch calls the
  second; \<open>Matrix4_mul\<close> below is the body with its two \<^verbatim>\<open>instanceof\<close> tests.
  In the \<^verbatim>\<open>Vector4\<close> branch the destructuring \<^verbatim>\<open>const { m00, ..., m33 } = m1\<close> calls
  the 16 scalar getters in turn; they read the same \<^verbatim>\<open>this.data\<close> and so fail together
  or not at all, which is the one test on the field here.
\<close>

definition Matrix4_mul_Vector4 ::
  "'a::{zero,plus,times} Matrix4 \<Rightarrow> 'a Vector4 \<Rightarrow> error + 'a Vector4" where
  "Matrix4_mul_Vector4 m1 xn =
     (case Matrix4_data m1 of None \<Rightarrow> Inl ReadOfUndefined
      | Some d \<Rightarrow>
          (let x = Vector4_x xn; y = Vector4_y xn; z = Vector4_z xn; w = Vector4_w xn
           in Inr (Vector4_new (V4_xyzw
                (m00 d * x + m10 d * y + m20 d * z + m30 d * w)
                (m01 d * x + m11 d * y + m21 d * z + m31 d * w)
                (m02 d * x + m12 d * y + m22 d * z + m32 d * w)
                (m03 d * x + m13 d * y + m23 d * z + m33 d * w)))))"

definition Matrix4_mul_Matrix4 ::
  "'a::{zero,one,plus,times} Matrix4 \<Rightarrow> 'a Matrix4 \<Rightarrow> error + 'a Matrix4" where
  "Matrix4_mul_Matrix4 m1 xn =
     and_then (and_then (Matrix4_c0 xn) (Matrix4_mul_Vector4 m1)) (\<lambda>r0.
     and_then (and_then (Matrix4_c1 xn) (Matrix4_mul_Vector4 m1)) (\<lambda>r1.
     and_then (and_then (Matrix4_c2 xn) (Matrix4_mul_Vector4 m1)) (\<lambda>r2.
     and_then (and_then (Matrix4_c3 xn) (Matrix4_mul_Vector4 m1)) (\<lambda>r3.
     Matrix4_new (M4_cols r0 r1 r2 r3)))))"

definition Matrix4_mul_number ::
  "'a::{zero,one,times} Matrix4 \<Rightarrow> 'a \<Rightarrow> error + 'a Matrix4" where
  "Matrix4_mul_number m1 xn =
     and_then (Matrix4_c0 m1) (\<lambda>a0.
     and_then (Matrix4_c1 m1) (\<lambda>a1.
     and_then (Matrix4_c2 m1) (\<lambda>a2.
     and_then (Matrix4_c3 m1) (\<lambda>a3.
     Matrix4_new (M4_cols (Vector4_mul a0 xn) (Vector4_mul a1 xn) (Vector4_mul a2 xn)
                          (Vector4_mul a3 xn))))))"

subsection \<open>The dispatched free functions\<close>

text \<open>
  Their parameters are \<^verbatim>\<open>any\<close>. A value is a number, an instance of one of the four
  classes, or anything else (\<^verbatim>\<open>undefined\<close>, a string, a bare host value, ...), on which
  every \<^verbatim>\<open>instanceof\<close> and \<^verbatim>\<open>typeof b === 'number'\<close> test of the module is false.
\<close>

datatype 'a any =
    ANumber 'a
  | AVector3 "'a Vector3"
  | AVector4 "'a Vector4"
  | AQuaternion "'a Quaternion"
  | AMatrix4 "'a Matrix4"
  | AOther

text \<open>The operand and the result of \<^verbatim>\<open>Matrix4.mul\<close>: \<^verbatim>\<open>Matrix4 | Vector4 | number\<close>.\<close>

datatype 'a Matrix4_xn = XMatrix4 "'a Matrix4" | XVector4 "'a Vector4" | XNumber 'a

fun Matrix4_mul :: "'a::{zero,one,plus,times} Matrix4 \<Rightarrow> 'a Matrix4_xn \<Rightarrow> error + 'a any" where
  "Matrix4_mul m1 (XMatrix4 xn) = and_then (Matrix4_mul_Matrix4 m1 xn) (\<lambda>r. Inr (AMatrix4 r))"
| "Matrix4_mul m1 (XVector4 xn) = and_then (Matrix4_mul_Vector4 m1 xn) (\<lambda>r. Inr (AVector4 r))"
| "Matrix4_mul m1 (XNumber xn) = and_then (Matrix4_mul_number m1 xn) (\<lambda>r. Inr (AMatrix4 r))"

definition add :: "'a::{zero,plus} any \<Rightarrow> 'a any \<Rightarrow> error + 'a any" where
  "add a b =
     (case a of
        AVector3 v1 \<Rightarrow>
          (case b of AVector3 v2 \<Rightarrow> Inr (AVector3 (Vector3_add v1 v2))
           | _ \<Rightarrow> Inl (TypeError ''Vector3 should add Vector3''))
      | AVector4 v1 \<Rightarrow>
          (case b of AVector4 v2 \<Rightarrow> Inr (AVector4 (Vector4_add v1 v2))
           | _ \<Rightarrow> Inl (TypeError ''Vector4 should add Vector4''))
      | _ \<Rightarrow> Inl (TypeError ''not supported''))"

definition sub :: "'a::{zero,minus} any \<Rightarrow> 'a any \<Rightarrow> error + 'a any" where
  "sub a b =
     (case a of
        AVector3 v1 \<Rightarrow>
          (case b of AVector3 v2 \<Rightarrow> Inr (AVector3 (Vector3_sub v1 v2))
           | _ \<Rightarrow> Inl (TypeError ''Vector3 should subtract Vector3''))
      | AVector4 v1 \<Rightarrow>
          (case b of AVector4 v2 \<Rightarrow> Inr (AVector4 (Vector4_sub v1 v2))
           | _ \<Rightarrow> Inl (TypeError ''Vector4 should subtract Vector4''))
      | _ \<Rightarrow> Inl (TypeError ''not supported''))"

definition neg :: "'a::{zero,uminus} any \<Rightarrow> error + 'a any" where
  "neg a =
     (case a of
        AVector3 v1 \<Rightarrow> Inr (AVector3 (Vector3_neg v1))
      | AVector4 v1 \<Rightarrow> Inr (AVector4 (Vector4_neg v1))
      | _ \<Rightarrow> Inl (TypeError ''not supported''))"

definition mul :: "'a::{zero,one,plus,minus,times} any \<Rightarrow> 'a any \<Rightarrow> error + 'a any" where
  "mul a b =
     (case a of
        AVector3 v \<Rightarrow>
          (case b of ANumber n \<Rightarrow> Inr (AVector3 (Vector3_mul v n))
           | _ \<Rightarrow> Inl (TypeError ''Vector3 should multiply number''))
      | AVector4 v \<Rightarrow>
          (case b of AMatrix4 m \<Rightarrow> Matrix4_mul m (XVector4 v)
           | ANumber n \<Rightarrow> Inr (AVector4 (Vector4_mul v n))
           | _ \<Rightarrow> Inl (TypeError ''Vector4 should multiply Matrix4 or number''))
      | AMatrix4 m \<Rightarrow>
          (case b of AVector4 v \<Rightarrow> Matrix4_mul m (XVector4 v)
           | AMatrix4 m2 \<Rightarrow> Matrix4_mul m (XMatrix4 m2)
           | ANumber n \<Rightarrow> Matrix4_mul m (XNumber n)
           | _ \<Rightarrow> Inl (TypeError ''Matrix4 should multiply Vector4, Matrix4 or number''))
      | ANumber n \<Rightarrow>
          (case b of AVector3 v \<Rightarrow> Inr (AVector3 (Vector3_mul v n))
           | AVector4 v \<Rightarrow> Inr (AVector4 (Vector4_mul v n))
           | AMatrix4 m \<Rightarrow> Matrix4_mul m (XNumber n)
           | _ \<Rightarrow> Inl (TypeError ''number should multiply Vector3, Vector4 or Matrix4''))
      | AQuaternion q \<Rightarrow>
          (case b of AQuaternion q2 \<Rightarrow> Inr (AQuaternion (Quaternion_mul q q2))
           | _ \<Rightarrow> Inl (TypeError ''Quaternion should multiply Quaternion''))
      | AOther \<Rightarrow> Inl (TypeError ''not supported''))"

definition div_any :: "'a::{zero,one,times,inverse} any \<Rightarrow> 'a any \<Rightarrow> error + 'a any" where
  "div_any a b =
     (case a of
        AVector3 v \<Rightarrow>
          (case b of ANumber n \<Rightarrow> Inr (AVector3 (Vector3_div v n))
           | _ \<Rightarrow> Inl (TypeError ''Vector3 should divide number''))
      | AVector4 v \<Rightarrow>
          (case b of ANumber n \<Rightarrow> Inr (AVector4 (Vector4_div v n))
           | _ \<Rightarrow> Inl (TypeError ''Vector4 should divide number''))
      | _ \<Rightarrow> Inl (TypeError ''not supported''))"

subsection \<open>The standard products, as the specification words them\<close>

text \<open>
  With the first digit of a scalar's name as its column, row \<open>j\<close> of a matrix is
  \<open>(m0j, m1j, m2j, m3j)\<close>. The
  matrix-vector product has the dot product of row \<open>j\<close> with the vector as its
  component \<open>j\<close>; the matrix product has the dot product of row \<open>j\<close> of the left matrix
  with column \<open>i\<close> of the right one as its entry in column \<open>i\<close> and row \<open>j\<close>. These
  follow the specification, not the code, and are what the code is compared with.
\<close>

definition Data_row0 :: "'a Matrix4_Data \<Rightarrow> 'a Vector4_Data" where
  "Data_row0 d = \<lparr>V4x = m00 d, V4y = m10 d, V4z = m20 d, V4w = m30 d\<rparr>"

definition Data_row1 :: "'a Matrix4_Data \<Rightarrow> 'a Vector4_Data" where
  "Data_row1 d = \<lparr>V4x = m01 d, V4y = m11 d, V4z = m21 d, V4w = m31 d\<rparr>"

definition Data_row2 :: "'a Matrix4_Data \<Rightarrow> 'a Vector4_Data" where
  "Data_row2 d = \<lparr>V4x = m02 d, V4y = m12 d, V4z = m22 d, V4w = m32 d\<rparr>"

definition Data_row3 :: "'a Matrix4_Data \<Rightarrow> 'a Vector4_Data" where
  "Data_row3 d = \<lparr>V4x = m03 d, V4y = m13 d, V4z = m23 d, V4w = m33 d\<rparr>"

definition dot4 :: "'a::{plus,times} Vector4_Data \<Rightarrow> 'a Vector4_Data \<Rightarrow> 'a" where
  "dot4 a b = V4x a * V4x b + V4y a * V4y b + V4z a * V4z b + V4w a * V4w b"

definition matrix_vector_product ::
  "'a::{plus,times} Matrix4_Data \<Rightarrow> 'a Vector4_Data \<Rightarrow> 'a Vector4_Data" where
  "matrix_vector_product d v =
     \<lparr>V4x = dot4 (Data_row0 d) v, V4y = dot4 (Data_row1 d) v,
      V4z = dot4 (Data_row2 d) v, V4w = dot4 (Data_row3 d) v\<rparr>"

definition matrix_product ::
  "'a::{plus,times} Matrix4_Data \<Rightarrow> 'a Matrix4_Data \<Rightarrow> 'a Matrix4_Data" where
  "matrix_product a b =
     \<lparr>m00 = dot4 (Data_row0 a) (Data_c0 b), m01 = dot4 (Data_row1 a) (Data_c0 b),
      m02 = dot4 (Data_row2 a) (Data_c0 b), m03 = dot4 (Data_row3 a) (Data_c0 b),
      m10 = dot4 (Data_row0 a) (Data_c1 b), m11 = dot4 (Data_row1 a) (Data_c1 b),
      m12 = dot4 (Data_row2 a) (Data_c1 b), m13 = dot4 (Data_row3 a) (Data_c1 b),
      m20 = dot4 (Data_row0 a) (Data_c2 b), m21 = dot4 (Data_row1 a) (Data_c2 b),
      m22 = dot4 (Data_row2 a) (Data_c2 b), m23 = dot4 (Data_row3 a) (Data_c2 b),
      m30 = dot4 (Data_row0 a) (Data_c3 b), m31 = dot4 (Data_row1 a) (Data_c3 b),
      m32 = dot4 (Data_row2 a) (Data_c3 b), m33 = dot4 (Data_row3 a) (Data_c3 b)\<rparr>"

subsection \<open>The declared signatures and the error messages\<close>

text \<open>
  The runtime class of a value, and the signatures that the module declares above the
  body of each dispatched function, in the order of the source.
\<close>

datatype type_tag = TNumber | TVector3 | TVector4 | TQuaternion | TMatrix4 | TOther

fun type_of :: "'a any \<Rightarrow> type_tag" where
  "type_of (ANumber _) = TNumber"
| "type_of (AVector3 _) = TVector3"
| "type_of (AVector4 _) = TVector4"
| "type_of (AQuaternion _) = TQuaternion"
| "type_of (AMatrix4 _) = TMatrix4"
| "type_of AOther = TOther"


datatype 'a call =
    Call_add "'a any" "'a any"
  | Call_sub "'a any" "'a any"
  | Call_neg "'a any"
  | Call_mul "'a any" "'a any"
  | Call_div "'a any" "'a any"

fun run :: "'a::{zero,one,plus,minus,uminus,times,inverse} call \<Rightarrow> error + 'a any" where
  "run (Call_add a b) = add a b"
| "run (Call_sub a b) = sub a b"
| "run (Call_neg a) = neg a"
| "run (Call_mul a b) = mul a b"
| "run (Call_div a b) = div_any a b"

definition add_signatures :: "(type_tag \<times> type_tag) list" where
  "add_signatures = [(TVector3, TVector3), (TVector4, TVector4)]"

definition sub_signatures :: "(type_tag \<times> type_tag) list" where
  "sub_signatures = [(TVector3, TVector3), (TVector4, TVector4)]"

definition neg_signatures :: "type_tag list" where
  "neg_signatures = [TVector3, TVector4]"

definition mul_signatures :: "(type_tag \<times> type_tag) list" where
  "mul_signatures =
     [(TVector3, TNumber), (TNumber, TVector3), (TVector4, TNumber), (TNumber, TVector4),
      (TQuaternion, TQuaternion), (TMatrix4, TNumber), (TNumber, TMatrix4),
      (TMatrix4, TMatrix4), (TMatrix4, TVector4), (TVector4, TMatrix4)]"

definition div_signatures :: "(type_tag \<times> type_tag) list" where
  "div_signatures = [(TVector3, TNumber), (TVector4, TNumber)]"

fun declared :: "'a call \<Rightarrow> bool" where
  "declared (Call_add a b) = List.member add_signatures (type_of a, type_of b)"
| "declared (Call_sub a b) = List.member sub_signatures (type_of a, type_of b)"
| "declared (Call_neg a) = List.member neg_signatures (type_of a)"
| "declared (Call_mul a b) = List.member mul_signatures (type_of a, type_of b)"
| "declared (Call_div a b) = List.member div_signatures (type_of a, type_of b)"






subsection \<open>Instances and host values as objects of a store\<close>

text \<open>
  The definitions above take an instance for the value of its components, which is all
  that the results of the functions depend on. What is an operand after a call, and
  which object a setter writes to, needs the objects themselves: a store is the list of
  the objects allocated so far, and a reference is an index into it. A store holds the
  host's values and the instances of the classes, whose \<^verbatim>\<open>data\<close> field refers to a
  host value. \<^verbatim>\<open>new\<close> and the host's constructors allocate at the end of the store;
  nothing ever removes an object.
\<close>

type_synonym ref = nat

datatype 'a object =
    HVector3 "'a Vector3_Data"
  | HVector4 "'a Vector4_Data"
  | HMatrix4 "'a Matrix4_Data"
  | IVector3 ref
  | IVector4 ref
  | IMatrix4 "ref option"

type_synonym 'a store = "'a object list"

definition alloc :: "'a object \<Rightarrow> 'a store \<Rightarrow> ref \<times> 'a store" where
  "alloc ob s = (length s, s @ [ob])"

definition object_at :: "'a store \<Rightarrow> ref \<Rightarrow> 'a object option" where
  "object_at s r = (if r < length s then Some (s ! r) else None)"

text \<open>
  \<^verbatim>\<open>this.data\<close> of an instance of \<^verbatim>\<open>Vector3\<close>, and the host value behind a reference.
  A reference to nothing or to an object of another kind does not arise in a run of the
  program; the model answers it with an error.
\<close>

definition Vector3_data_st :: "'a store \<Rightarrow> ref \<Rightarrow> error + ref" where
  "Vector3_data_st s this =
     (case object_at s this of Some (IVector3 d) \<Rightarrow> Inr d | _ \<Rightarrow> Inl ReadOfUndefined)"

definition host_Vector3 :: "'a store \<Rightarrow> ref \<Rightarrow> error + 'a Vector3_Data" where
  "host_Vector3 s r =
     (case object_at s r of Some (HVector3 d) \<Rightarrow> Inr d | _ \<Rightarrow> Inl ReadOfUndefined)"

definition Vector3_x_st :: "'a store \<Rightarrow> ref \<Rightarrow> error + 'a" where
  "Vector3_x_st s this =
     and_then (Vector3_data_st s this) (\<lambda>r. and_then (host_Vector3 s r) (\<lambda>d. Inr (V3x d)))"

definition Vector3_y_st :: "'a store \<Rightarrow> ref \<Rightarrow> error + 'a" where
  "Vector3_y_st s this =
     and_then (Vector3_data_st s this) (\<lambda>r. and_then (host_Vector3 s r) (\<lambda>d. Inr (V3y d)))"

definition Vector3_z_st :: "'a store \<Rightarrow> ref \<Rightarrow> error + 'a" where
  "Vector3_z_st s this =
     and_then (Vector3_data_st s this) (\<lambda>r. and_then (host_Vector3 s r) (\<lambda>d. Inr (V3z d)))"

text \<open>\<^verbatim>\<open>set x(x) { this.data.x = x; }\<close>: the host value is updated where it is.\<close>

definition Vector3_set_x_st :: "ref \<Rightarrow> 'a \<Rightarrow> 'a store \<Rightarrow> error + 'a store" where
  "Vector3_set_x_st this n s =
     and_then (Vector3_data_st s this) (\<lambda>r. and_then (host_Vector3 s r) (\<lambda>d.
       Inr (s[r := HVector3 (d\<lparr>V3x := n\<rparr>)])))"

definition Vector3_set_y_st :: "ref \<Rightarrow> 'a \<Rightarrow> 'a store \<Rightarrow> error + 'a store" where
  "Vector3_set_y_st this n s =
     and_then (Vector3_data_st s this) (\<lambda>r. and_then (host_Vector3 s r) (\<lambda>d.
       Inr (s[r := HVector3 (d\<lparr>V3y := n\<rparr>)])))"

definition Vector3_set_z_st :: "ref \<Rightarrow> 'a \<Rightarrow> 'a store \<Rightarrow> error + 'a store" where
  "Vector3_set_z_st this n s =
     and_then (Vector3_data_st s this) (\<lambda>r. and_then (host_Vector3 s r) (\<lambda>d.
       Inr (s[r := HVector3 (d\<lparr>V3z := n\<rparr>)])))"

text \<open>
  The constructor. An instance to copy is given by its reference, and so is a host
  value. With a host value, only the instance is new: its \<^verbatim>\<open>data\<close> field refers to
  the value it was given. In the other cases the host allocates a value.
\<close>

datatype 'a Vector3_args_st =
    S3_none
  | S3_splat 'a
  | S3_copy ref
  | S3_xyz 'a 'a 'a
  | S3_data ref

definition new_Vector3_of :: "'a Vector3_Data \<Rightarrow> 'a store \<Rightarrow> error + ref \<times> 'a store" where
  "new_Vector3_of d s =
     (let (r, s1) = alloc (HVector3 d) s; (this, s2) = alloc (IVector3 r) s1
      in Inr (this, s2))"

fun Vector3_new_st :: "'a::zero Vector3_args_st \<Rightarrow> 'a store \<Rightarrow> error + ref \<times> 'a store" where
  "Vector3_new_st S3_none s = new_Vector3_of \<lparr>V3x = 0, V3y = 0, V3z = 0\<rparr> s"
| "Vector3_new_st (S3_splat n) s = new_Vector3_of \<lparr>V3x = n, V3y = n, V3z = n\<rparr> s"
| "Vector3_new_st (S3_copy v) s =
     and_then (Vector3_x_st s v) (\<lambda>a. and_then (Vector3_y_st s v) (\<lambda>b.
     and_then (Vector3_z_st s v) (\<lambda>c. new_Vector3_of \<lparr>V3x = a, V3y = b, V3z = c\<rparr> s)))"
| "Vector3_new_st (S3_xyz a b c) s = new_Vector3_of \<lparr>V3x = a, V3y = b, V3z = c\<rparr> s"
| "Vector3_new_st (S3_data d) s = Inr (alloc (IVector3 d) s)"

definition Vector3_add_st ::
  "ref \<Rightarrow> ref \<Rightarrow> 'a::{zero,plus} store \<Rightarrow> error + ref \<times> 'a store" where
  "Vector3_add_st v1 v2 s =
     and_then (Vector3_x_st s v1) (\<lambda>x1. and_then (Vector3_x_st s v2) (\<lambda>x2.
     and_then (Vector3_y_st s v1) (\<lambda>y1. and_then (Vector3_y_st s v2) (\<lambda>y2.
     and_then (Vector3_z_st s v1) (\<lambda>z1. and_then (Vector3_z_st s v2) (\<lambda>z2.
     Vector3_new_st (S3_xyz (x1 + x2) (y1 + y2) (z1 + z2)) s))))))"

definition Vector3_sub_st ::
  "ref \<Rightarrow> ref \<Rightarrow> 'a::{zero,minus} store \<Rightarrow> error + ref \<times> 'a store" where
  "Vector3_sub_st v1 v2 s =
     and_then (Vector3_x_st s v1) (\<lambda>x1. and_then (Vector3_x_st s v2) (\<lambda>x2.
     and_then (Vector3_y_st s v1) (\<lambda>y1. and_then (Vector3_y_st s v2) (\<lambda>y2.
     and_then (Vector3_z_st s v1) (\<lambda>z1. and_then (Vector3_z_st s v2) (\<lambda>z2.
     Vector3_new_st (S3_xyz (x1 - x2) (y1 - y2) (z1 - z2)) s))))))"

definition Vector3_neg_st :: "ref \<Rightarrow> 'a::{zero,uminus} store \<Rightarrow> error + ref \<times> 'a store" where
  "Vector3_neg_st v1 s =
     and_then (Vector3_x_st s v1) (\<lambda>x1. and_then (Vector3_y_st s v1) (\<lambda>y1.
     and_then (Vector3_z_st s v1) (\<lambda>z1. Vector3_new_st (S3_xyz (- x1) (- y1) (- z1)) s)))"

definition Vector3_mul_st ::
  "ref \<Rightarrow> 'a \<Rightarrow> 'a::{zero,times} store \<Rightarrow> error + ref \<times> 'a store" where
  "Vector3_mul_st v1 n s =
     and_then (Vector3_x_st s v1) (\<lambda>x1. and_then (Vector3_y_st s v1) (\<lambda>y1.
     and_then (Vector3_z_st s v1) (\<lambda>z1. Vector3_new_st (S3_xyz (x1 * n) (y1 * n) (z1 * n)) s)))"

definition Vector3_div_st ::
  "ref \<Rightarrow> 'a \<Rightarrow> 'a::{zero,one,times,inverse} store \<Rightarrow> error + ref \<times> 'a store" where
  "Vector3_div_st v1 n s = Vector3_mul_st v1 (1 / n) s"

text \<open>
  \<^verbatim>\<open>set c0(c0) { this.data.c0 = c0; }\<close> of \<^verbatim>\<open>Matrix4\<close>: the host writes the components
  of the given vector into column 0 of the matrix value that \<^verbatim>\<open>this.data\<close> refers to.
\<close>

definition Matrix4_data_st :: "'a store \<Rightarrow> ref \<Rightarrow> error + ref" where
  "Matrix4_data_st s this =
     (case object_at s this of Some (IMatrix4 (Some d)) \<Rightarrow> Inr d | _ \<Rightarrow> Inl ReadOfUndefined)"

definition host_Matrix4 :: "'a store \<Rightarrow> ref \<Rightarrow> error + 'a Matrix4_Data" where
  "host_Matrix4 s r =
     (case object_at s r of Some (HMatrix4 d) \<Rightarrow> Inr d | _ \<Rightarrow> Inl ReadOfUndefined)"

definition Vector4_data_st :: "'a store \<Rightarrow> ref \<Rightarrow> error + ref" where
  "Vector4_data_st s this =
     (case object_at s this of Some (IVector4 d) \<Rightarrow> Inr d | _ \<Rightarrow> Inl ReadOfUndefined)"

definition host_Vector4 :: "'a store \<Rightarrow> ref \<Rightarrow> error + 'a Vector4_Data" where
  "host_Vector4 s r =
     (case object_at s r of Some (HVector4 d) \<Rightarrow> Inr d | _ \<Rightarrow> Inl ReadOfUndefined)"

definition Matrix4_set_c0_st :: "ref \<Rightarrow> ref \<Rightarrow> 'a store \<Rightarrow> error + 'a store" where
  "Matrix4_set_c0_st this c0 s =
     and_then (Matrix4_data_st s this) (\<lambda>r. and_then (host_Matrix4 s r) (\<lambda>d.
     and_then (Vector4_data_st s c0) (\<lambda>rc. and_then (host_Vector4 s rc) (\<lambda>c.
       Inr (s[r := HMatrix4 (Data_set_c0 d c)])))))"

text \<open>
  An instance of \<^verbatim>\<open>Vector3\<close> (of \<^verbatim>\<open>Vector4\<close>, of \<^verbatim>\<open>Matrix4\<close>) at a reference, with
  \<^verbatim>\<open>data\<close> referring to a host value with the given components.
\<close>

definition is_Vector3 :: "'a store \<Rightarrow> ref \<Rightarrow> 'a Vector3_Data \<Rightarrow> bool" where
  "is_Vector3 s this d =
     (case object_at s this of Some (IVector3 r) \<Rightarrow> object_at s r = Some (HVector3 d)
      | _ \<Rightarrow> False)"

definition is_Vector4 :: "'a store \<Rightarrow> ref \<Rightarrow> 'a Vector4_Data \<Rightarrow> bool" where
  "is_Vector4 s this d =
     (case object_at s this of Some (IVector4 r) \<Rightarrow> object_at s r = Some (HVector4 d)
      | _ \<Rightarrow> False)"

definition is_Matrix4 :: "'a store \<Rightarrow> ref \<Rightarrow> 'a Matrix4_Data \<Rightarrow> bool" where
  "is_Matrix4 s this d =
     (case object_at s this of Some (IMatrix4 (Some r)) \<Rightarrow> object_at s r = Some (HMatrix4 d)
      | _ \<Rightarrow> False)"

text \<open>
  A call from store \<open>s\<close> to store \<open>s'\<close> leaves every object of \<open>s\<close> as it was, and may
  have allocated new ones.
\<close>

definition keeps :: "'a store \<Rightarrow> 'a store \<Rightarrow> bool" where
  "keeps s s' = (take (length s) s' = s)"

text \<open>
  The object at \<open>this\<close> is new in \<open>s'\<close>: every object of \<open>s\<close> is as it was, \<open>this\<close> is
  not an object of \<open>s\<close>, and neither is the host value that its \<^verbatim>\<open>data\<close> refers to.
\<close>

definition new_instance :: "'a store \<Rightarrow> 'a store \<Rightarrow> ref \<Rightarrow> bool" where
  "new_instance s s' this =
     (keeps s s' \<and> object_at s this = None
      \<and> (case object_at s' this of Some (IVector3 r) \<Rightarrow> object_at s r = None | _ \<Rightarrow> False))"

subsection \<open>A carrier with the special values of IEEE 754\<close>

text \<open>
  A JavaScript \<^verbatim>\<open>number\<close> is an IEEE 754 double: besides the finite numbers there are
  \<^verbatim>\<open>Infinity\<close>, \<^verbatim>\<open>-Infinity\<close> and \<^verbatim>\<open>NaN\<close>, and these do not obey the laws of a ring
  (\<^verbatim>\<open>Infinity * 0\<close> is \<^verbatim>\<open>NaN\<close>). The type \<open>number\<close> instantiates the operators of the
  model with the standard's rules for the special values. On finite operands the
  operators are the exact ones of the reals: rounding, overflow and the sign of zero are
  not part of this carrier (it has one zero, as \<^verbatim>\<open>===\<close> has). \<^verbatim>\<open>Number.isFinite\<close> is
  \<open>Number_isFinite\<close>.
\<close>

datatype number = Finite real | PosInfinity | NegInfinity | NaN

fun Number_isFinite :: "number \<Rightarrow> bool" where
  "Number_isFinite (Finite x) = True"
| "Number_isFinite PosInfinity = False"
| "Number_isFinite NegInfinity = False"
| "Number_isFinite NaN = False"

text \<open>An infinity times a finite number: its sign, or \<^verbatim>\<open>NaN\<close> when the number is 0.\<close>

definition infinity_times :: "real \<Rightarrow> number" where
  "infinity_times x = (if x = 0 then NaN else if 0 < x then PosInfinity else NegInfinity)"

instantiation number :: "{zero,one,plus,minus,uminus,times,inverse}"
begin

definition zero_number :: number where
  "zero_number = Finite 0"

definition one_number :: number where
  "one_number = Finite 1"

fun uminus_number :: "number \<Rightarrow> number" where
  "uminus_number (Finite x) = Finite (- x)"
| "uminus_number PosInfinity = NegInfinity"
| "uminus_number NegInfinity = PosInfinity"
| "uminus_number NaN = NaN"

fun plus_number :: "number \<Rightarrow> number \<Rightarrow> number" where
  "plus_number (Finite x) (Finite y) = Finite (x + y)"
| "plus_number (Finite x) PosInfinity = PosInfinity"
| "plus_number (Finite x) NegInfinity = NegInfinity"
| "plus_number PosInfinity (Finite y) = PosInfinity"
| "plus_number NegInfinity (Finite y) = NegInfinity"
| "plus_number PosInfinity PosInfinity = PosInfinity"
| "plus_number NegInfinity NegInfinity = NegInfinity"
| "plus_number PosInfinity NegInfinity = NaN"
| "plus_number NegInfinity PosInfinity = NaN"
| "plus_number NaN b = NaN"
| "plus_number a NaN = NaN"

definition minus_number :: "number \<Rightarrow> number \<Rightarrow> number" where
  "minus_number a b = a + (- b)"

fun times_number :: "number \<Rightarrow> number \<Rightarrow> number" where
  "times_number (Finite x) (Finite y) = Finite (x * y)"
| "times_number (Finite x) PosInfinity = infinity_times x"
| "times_number (Finite x) NegInfinity = infinity_times (- x)"
| "times_number PosInfinity (Finite y) = infinity_times y"
| "times_number NegInfinity (Finite y) = infinity_times (- y)"
| "times_number PosInfinity PosInfinity = PosInfinity"
| "times_number NegInfinity NegInfinity = PosInfinity"
| "times_number PosInfinity NegInfinity = NegInfinity"
| "times_number NegInfinity PosInfinity = NegInfinity"
| "times_number NaN b = NaN"
| "times_number a NaN = NaN"

fun inverse_number :: "number \<Rightarrow> number" where
  "inverse_number (Finite x) = (if x = 0 then PosInfinity else Finite (inverse x))"
| "inverse_number PosInfinity = Finite 0"
| "inverse_number NegInfinity = Finite 0"
| "inverse_number NaN = NaN"

definition divide_number :: "number \<Rightarrow> number \<Rightarrow> number" where
  "divide_number a b = a * inverse b"

instance ..

end

subsection \<open>Concrete values for the examples\<close>

definition example_matrix :: "real Matrix4_Data" where
  "example_matrix =
     \<lparr>m00 = 1, m01 = 2, m02 = 3, m03 = 4,
      m10 = 5, m11 = 6, m12 = 7, m13 = 8,
      m20 = 9, m21 = 10, m22 = 11, m23 = 12,
      m30 = 13, m31 = 14, m32 = 15, m33 = 16\<rparr>"

definition example_matrix2 :: "real Matrix4_Data" where
  "example_matrix2 =
     \<lparr>m00 = 0, m01 = 1, m02 = 0, m03 = 0,
      m10 = 2, m11 = 0, m12 = 0, m13 = 0,
      m20 = 0, m21 = 0, m22 = 1, m23 = 1,
      m30 = 1, m31 = 1, m32 = 1, m33 = 1\<rparr>"

definition example_vector :: "real Vector4_Data" where
  "example_vector = \<lparr>V4x = 1, V4y = 0, V4z = 2, V4w = 0\<rparr>"

text \<open>
  A store with two instances of \<^verbatim>\<open>Vector3\<close> (at 1 and 3), one of \<^verbatim>\<open>Matrix4\<close> (at 5)
  and one of \<^verbatim>\<open>Vector4\<close> (at 7), each after its host value.
\<close>

definition example_store :: "real store" where
  "example_store =
     [HVector3 \<lparr>V3x = 1, V3y = 2, V3z = 3\<rparr>, IVector3 0,
      HVector3 \<lparr>V3x = 4, V3y = 5, V3z = 6\<rparr>, IVector3 2,
      HMatrix4 example_matrix, IMatrix4 (Some 4),
      HVector4 example_vector, IVector4 6]"

section \<open>Properties\<close>

lemma and_then_Inr: "and_then (Inr v) f = f v"
  by (simp add: and_then_def)

lemmas Quaternion_getters = Quaternion_x_def Quaternion_y_def Quaternion_z_def Quaternion_w_def

lemmas Vector4_getters = Vector4_x_def Vector4_y_def Vector4_z_def Vector4_w_def

lemmas Vector3_getters = Vector3_x_def Vector3_y_def Vector3_z_def

lemmas Data_rows = Data_row0_def Data_row1_def Data_row2_def Data_row3_def

lemmas Data_columns = Data_c0_def Data_c1_def Data_c2_def Data_c3_def

subsection \<open>Quaternion composition\<close>

text \<open>
  C1. For all quaternions \<open>q1 = (x1, y1, z1, w1)\<close> and \<open>q2 = (x2, y2, z2, w2)\<close>,
  \<^verbatim>\<open>Quaternion.mul(q1, q2)\<close> is the quaternion whose components, read through the
  getters, are
  \<open>x = w1*x2 + x1*w2 + y1*z2 - z1*y2\<close>, \<open>y = w1*y2 + y1*w2 + z1*x2 - x1*z2\<close>,
  \<open>z = w1*z2 + z1*w2 + x1*y2 - y1*x2\<close>, \<open>w = w1*w2 - x1*x2 - y1*y2 - z1*z2\<close>:
  the Hamilton product. No law of arithmetic is used.
\<close>

theorem Quaternion_mul_components:
  fixes q1 q2 :: "'a::{zero,one,plus,minus,times} Quaternion"
  shows "Quaternion_x (Quaternion_mul q1 q2) =
           Quaternion_w q1 * Quaternion_x q2 + Quaternion_x q1 * Quaternion_w q2
           + Quaternion_y q1 * Quaternion_z q2 - Quaternion_z q1 * Quaternion_y q2
       \<and> Quaternion_y (Quaternion_mul q1 q2) =
           Quaternion_w q1 * Quaternion_y q2 + Quaternion_y q1 * Quaternion_w q2
           + Quaternion_z q1 * Quaternion_x q2 - Quaternion_x q1 * Quaternion_z q2
       \<and> Quaternion_z (Quaternion_mul q1 q2) =
           Quaternion_w q1 * Quaternion_z q2 + Quaternion_z q1 * Quaternion_w q2
           + Quaternion_x q1 * Quaternion_y q2 - Quaternion_y q1 * Quaternion_x q2
       \<and> Quaternion_w (Quaternion_mul q1 q2) =
           Quaternion_w q1 * Quaternion_w q2 - Quaternion_x q1 * Quaternion_x q2
           - Quaternion_y q1 * Quaternion_y q2 - Quaternion_z q1 * Quaternion_z q2"
  by (simp add: Quaternion_mul_def Let_def Quaternion_getters)

text \<open>
  The units \<open>i\<close>, \<open>j\<close>, \<open>k\<close> multiply as Hamilton's do: \<open>i j = k\<close>, \<open>j i = - k\<close> and
  \<open>i i = - 1\<close>, in exact arithmetic.
\<close>

lemma Quaternion_mul_units:
  "Quaternion_mul (Quaternion_new (Q_xyzw 1 0 0 0)) (Quaternion_new (Q_xyzw 0 1 0 0))
     = Quaternion_new (Q_xyzw 0 0 1 (0::real))"
  "Quaternion_mul (Quaternion_new (Q_xyzw 0 1 0 0)) (Quaternion_new (Q_xyzw 1 0 0 0))
     = Quaternion_new (Q_xyzw 0 0 (- 1) (0::real))"
  "Quaternion_mul (Quaternion_new (Q_xyzw 1 0 0 0)) (Quaternion_new (Q_xyzw 1 0 0 0))
     = Quaternion_new (Q_xyzw 0 0 0 (- 1::real))"
  by (simp_all add: Quaternion_mul_def Let_def Quaternion_getters)

text \<open>
  In exact arithmetic (any ring with a unit), the identity quaternion
  \<^verbatim>\<open>new Quaternion()\<close>, which is \<open>(0, 0, 0, 1)\<close>, is a right and a left identity of
  \<^verbatim>\<open>Quaternion.mul\<close>: both products have the components of \<open>q\<close>.
\<close>

lemma Quaternion_mul_identity_exact:
  fixes q :: "'a::ring_1 Quaternion"
  shows "Quaternion_data (Quaternion_new Q_none) = \<lparr>Qx = 0, Qy = 0, Qz = 0, Qw = 1\<rparr>
       \<and> Quaternion_x (Quaternion_mul q (Quaternion_new Q_none)) = Quaternion_x q
       \<and> Quaternion_y (Quaternion_mul q (Quaternion_new Q_none)) = Quaternion_y q
       \<and> Quaternion_z (Quaternion_mul q (Quaternion_new Q_none)) = Quaternion_z q
       \<and> Quaternion_w (Quaternion_mul q (Quaternion_new Q_none)) = Quaternion_w q
       \<and> Quaternion_x (Quaternion_mul (Quaternion_new Q_none) q) = Quaternion_x q
       \<and> Quaternion_y (Quaternion_mul (Quaternion_new Q_none) q) = Quaternion_y q
       \<and> Quaternion_z (Quaternion_mul (Quaternion_new Q_none) q) = Quaternion_z q
       \<and> Quaternion_w (Quaternion_mul (Quaternion_new Q_none) q) = Quaternion_w q"
  by (simp add: Quaternion_mul_def Let_def Quaternion_getters)

lemma Quaternion_new_getters:
  "Quaternion_x (Quaternion_new (Q_xyzw a b c d)) = a"
  "Quaternion_y (Quaternion_new (Q_xyzw a b c d)) = b"
  "Quaternion_z (Quaternion_new (Q_xyzw a b c d)) = c"
  "Quaternion_w (Quaternion_new (Q_xyzw a b c d)) = d"
  "Quaternion_x (Quaternion_new Q_none) = 0"
  "Quaternion_y (Quaternion_new Q_none) = 0"
  "Quaternion_z (Quaternion_new Q_none) = 0"
  "Quaternion_w (Quaternion_new Q_none) = 1"
  by (simp_all add: Quaternion_getters)

lemma Number_isFinite_iff: "Number_isFinite a \<longleftrightarrow> (\<exists>x. a = Finite x)"
  by (cases a) simp_all

text \<open>
  C7, as the specification has it, fails on a quaternion with an infinite component:
  for \<open>q = (Infinity, 0, 0, 1)\<close> the \<open>y\<close> of \<^verbatim>\<open>Quaternion.mul(q, new Quaternion())\<close> is
  \<open>1*0 + 0*1 + 0*0 - Infinity*0\<close>, which is \<^verbatim>\<open>NaN\<close>, and the \<open>y\<close> of \<open>q\<close> is 0.
\<close>

theorem Quaternion_mul_identity_counterexample:
  "Quaternion_y (Quaternion_mul (Quaternion_new (Q_xyzw PosInfinity 0 0 1))
                                (Quaternion_new Q_none)) = NaN
   \<and> Quaternion_y (Quaternion_new (Q_xyzw PosInfinity 0 0 1)) = Finite 0
   \<and> Quaternion_y (Quaternion_mul (Quaternion_new (Q_xyzw PosInfinity 0 0 1))
                                  (Quaternion_new Q_none))
       \<noteq> Quaternion_y (Quaternion_new (Q_xyzw PosInfinity 0 0 1))"
  by (simp add: Quaternion_mul_def Let_def Quaternion_getters zero_number_def
      one_number_def minus_number_def infinity_times_def)

text \<open>
  C7, as the code has it. For every quaternion \<open>q\<close> whose four components are finite
  numbers, \<^verbatim>\<open>Quaternion.mul(q, new Quaternion())\<close> and
  \<^verbatim>\<open>Quaternion.mul(new Quaternion(), q)\<close> have the components of \<open>q\<close>, where
  \<^verbatim>\<open>new Quaternion()\<close> is the identity quaternion \<open>(0, 0, 0, 1)\<close>.
\<close>

theorem Quaternion_mul_identity_finite:
  fixes q :: "number Quaternion"
  assumes "Number_isFinite (Quaternion_x q)" and "Number_isFinite (Quaternion_y q)"
    and "Number_isFinite (Quaternion_z q)" and "Number_isFinite (Quaternion_w q)"
  shows "Quaternion_data (Quaternion_new Q_none) = \<lparr>Qx = 0, Qy = 0, Qz = 0, Qw = (1::number)\<rparr>
       \<and> Quaternion_x (Quaternion_mul q (Quaternion_new Q_none)) = Quaternion_x q
       \<and> Quaternion_y (Quaternion_mul q (Quaternion_new Q_none)) = Quaternion_y q
       \<and> Quaternion_z (Quaternion_mul q (Quaternion_new Q_none)) = Quaternion_z q
       \<and> Quaternion_w (Quaternion_mul q (Quaternion_new Q_none)) = Quaternion_w q
       \<and> Quaternion_x (Quaternion_mul (Quaternion_new Q_none) q) = Quaternion_x q
       \<and> Quaternion_y (Quaternion_mul (Quaternion_new Q_none) q) = Quaternion_y q
       \<and> Quaternion_z (Quaternion_mul (Quaternion_new Q_none) q) = Quaternion_z q
       \<and> Quaternion_w (Quaternion_mul (Quaternion_new Q_none) q) = Quaternion_w q"
proof -
  from assms obtain x y z w where q: "Quaternion_x q = Finite x" "Quaternion_y q = Finite y"
    "Quaternion_z q = Finite z" "Quaternion_w q = Finite w"
    by (auto simp add: Number_isFinite_iff)
  have new: "Quaternion_data (Quaternion_new Q_none)
               = \<lparr>Qx = 0, Qy = 0, Qz = 0, Qw = (1::number)\<rparr>"
    by simp
  have right: "Quaternion_mul q (Quaternion_new Q_none)
                 = Quaternion_new (Q_xyzw (Finite x) (Finite y) (Finite z) (Finite w))"
    by (simp add: Quaternion_mul_def Let_def Quaternion_new_getters q zero_number_def
        one_number_def minus_number_def del: Quaternion_new.simps)
  have left: "Quaternion_mul (Quaternion_new Q_none) q
                = Quaternion_new (Q_xyzw (Finite x) (Finite y) (Finite z) (Finite w))"
    by (simp add: Quaternion_mul_def Let_def Quaternion_new_getters q zero_number_def
        one_number_def minus_number_def del: Quaternion_new.simps)
  show ?thesis
    unfolding right left Quaternion_new_getters q using new by simp
qed

theorem Quaternion_mul_identity_finite_witness:
  "Number_isFinite (Quaternion_x (Quaternion_new (Q_xyzw (Finite 1) (Finite 2) (Finite 3) (Finite 4))))
   \<and> Number_isFinite (Quaternion_y (Quaternion_new (Q_xyzw (Finite 1) (Finite 2) (Finite 3) (Finite 4))))
   \<and> Number_isFinite (Quaternion_z (Quaternion_new (Q_xyzw (Finite 1) (Finite 2) (Finite 3) (Finite 4))))
   \<and> Number_isFinite (Quaternion_w (Quaternion_new (Q_xyzw (Finite 1) (Finite 2) (Finite 3) (Finite 4))))
   \<and> Quaternion_x (Quaternion_mul (Quaternion_new (Q_xyzw (Finite 1) (Finite 2) (Finite 3) (Finite 4)))
                                  (Quaternion_new Q_none)) = Finite 1
   \<and> Quaternion_w (Quaternion_mul (Quaternion_new Q_none)
                      (Quaternion_new (Q_xyzw (Finite 1) (Finite 2) (Finite 3) (Finite 4))))
       = Finite 4"
proof -
  let ?q = "Quaternion_new (Q_xyzw (Finite 1) (Finite 2) (Finite 3) (Finite 4))"
  have h: "Number_isFinite (Quaternion_x ?q)" "Number_isFinite (Quaternion_y ?q)"
    "Number_isFinite (Quaternion_z ?q)" "Number_isFinite (Quaternion_w ?q)"
    by (simp_all add: Quaternion_new_getters del: Quaternion_new.simps)
  from Quaternion_mul_identity_finite [OF h] show ?thesis
    using h by (simp add: Quaternion_new_getters del: Quaternion_new.simps)
qed

subsection \<open>Matrix products\<close>

lemma Matrix4_new_cols:
  "Matrix4_new (M4_cols x y z w) =
     Inr (Matrix4 (Some
       \<lparr>m00 = Vector4_x x, m01 = Vector4_y x, m02 = Vector4_z x, m03 = Vector4_w x,
        m10 = Vector4_x y, m11 = Vector4_y y, m12 = Vector4_z y, m13 = Vector4_w y,
        m20 = Vector4_x z, m21 = Vector4_y z, m22 = Vector4_z z, m23 = Vector4_w z,
        m30 = Vector4_x w, m31 = Vector4_y w, m32 = Vector4_z w, m33 = Vector4_w w\<rparr>))"
  by (simp add: Matrix4_set_c0_def Matrix4_set_c1_def Matrix4_set_c2_def Matrix4_set_c3_def
      and_then_Inr lua_vmath_matrix4_def Data_set_c0_def Data_set_c1_def Data_set_c2_def
      Data_set_c3_def Vector4_getters)

lemma Matrix4_mul_Vector4_Some:
  "Matrix4_data m = Some d \<Longrightarrow>
   Matrix4_mul_Vector4 m v = Inr (Vector4 (matrix_vector_product d (Vector4_data v)))"
  by (simp add: Matrix4_mul_Vector4_def Let_def matrix_vector_product_def dot4_def
      Data_rows Vector4_getters)

lemma Matrix4_columns_Some:
  "Matrix4_data m = Some d \<Longrightarrow> Matrix4_c0 m = Inr (Vector4 (Data_c0 d))"
  "Matrix4_data m = Some d \<Longrightarrow> Matrix4_c1 m = Inr (Vector4 (Data_c1 d))"
  "Matrix4_data m = Some d \<Longrightarrow> Matrix4_c2 m = Inr (Vector4 (Data_c2 d))"
  "Matrix4_data m = Some d \<Longrightarrow> Matrix4_c3 m = Inr (Vector4 (Data_c3 d))"
  by (simp_all add: Matrix4_c0_def Matrix4_c1_def Matrix4_c2_def Matrix4_c3_def)

lemma Matrix4_mul_Matrix4_Some:
  assumes "Matrix4_data m1 = Some d1" and "Matrix4_data m2 = Some d2"
  shows "Matrix4_mul_Matrix4 m1 m2 = Inr (Matrix4 (Some (matrix_product d1 d2)))"
  using assms
  by (simp add: Matrix4_mul_Matrix4_def Matrix4_columns_Some Matrix4_mul_Vector4_Some
      and_then_Inr Matrix4_new_cols Vector4_getters matrix_product_def
      matrix_vector_product_def del: Matrix4_new.simps)

lemma columns_of_matrix_product:
  "Data_c0 (matrix_product a b) = matrix_vector_product a (Data_c0 b)"
  "Data_c1 (matrix_product a b) = matrix_vector_product a (Data_c1 b)"
  "Data_c2 (matrix_product a b) = matrix_vector_product a (Data_c2 b)"
  "Data_c3 (matrix_product a b) = matrix_vector_product a (Data_c3 b)"
  by (simp_all add: matrix_product_def matrix_vector_product_def Data_columns)

text \<open>
  A matrix without a host value, which is what \<^verbatim>\<open>new Matrix4()\<close> builds, cannot be
  multiplied: the first getter fails.
\<close>

lemma Matrix4_mul_without_data:
  "Matrix4_new M4_none = Inr (Matrix4 None)"
  "Matrix4_mul (Matrix4 None) (XVector4 v) = Inl ReadOfUndefined"
  "Matrix4_mul m (XMatrix4 (Matrix4 None)) = Inl ReadOfUndefined"
  by (simp_all add: Matrix4_mul_Vector4_def Matrix4_mul_Matrix4_def Matrix4_c0_def
      and_then_def)

text \<open>
  On a matrix \<open>m\<close> that has a host value \<open>d\<close> and every \<^verbatim>\<open>Vector4\<close> \<open>v\<close>,
  \<^verbatim>\<open>Matrix4.mul(m, v)\<close> returns a \<^verbatim>\<open>Vector4\<close> whose component \<open>j\<close> is the dot product
  of row \<open>j\<close> of the matrix with \<open>v\<close>; the four rows are the 16 scalars. No law of
  arithmetic is used.
\<close>

theorem Matrix4_mul_Vector4_standard:
  fixes m :: "'a::{zero,one,plus,times} Matrix4"
  assumes "Matrix4_data m = Some d"
  shows "\<exists>r. Matrix4_mul m (XVector4 v) = Inr (AVector4 r)
           \<and> Vector4_x r = dot4 (Data_row0 d) (Vector4_data v)
           \<and> Vector4_y r = dot4 (Data_row1 d) (Vector4_data v)
           \<and> Vector4_z r = dot4 (Data_row2 d) (Vector4_data v)
           \<and> Vector4_w r = dot4 (Data_row3 d) (Vector4_data v)"
  using assms
  by (simp add: Matrix4_mul_Vector4_Some and_then_Inr matrix_vector_product_def
      Vector4_getters)

theorem Matrix4_mul_Vector4_standard_witness:
  "Matrix4_data (Matrix4 (Some example_matrix)) = Some example_matrix
   \<and> (\<exists>r. Matrix4_mul (Matrix4 (Some example_matrix)) (XVector4 (Vector4 example_vector))
             = Inr (AVector4 r)
          \<and> Vector4_x r = 19 \<and> Vector4_y r = 22 \<and> Vector4_z r = 25 \<and> Vector4_w r = 28)"
proof -
  have h: "Matrix4_data (Matrix4 (Some example_matrix)) = Some example_matrix"
    by simp
  from Matrix4_mul_Vector4_standard [OF h, of "Vector4 example_vector"]
  show ?thesis
    by (simp add: dot4_def Data_rows example_matrix_def example_vector_def)
qed

text \<open>
  On matrices \<open>m1\<close> and \<open>m2\<close> that have host values \<open>d1\<close> and \<open>d2\<close>,
  \<^verbatim>\<open>Matrix4.mul(m1, m2)\<close> returns a matrix whose host value is the standard product of
  \<open>d1\<close> and \<open>d2\<close>, computed column by column: for each \<open>i\<close> in 0..3, column \<open>i\<close> of
  the result is what \<^verbatim>\<open>Matrix4.mul(m1, m2.ci)\<close> returns, the matrix-vector product of
  \<open>d1\<close> with column \<open>i\<close> of \<open>d2\<close>.
\<close>

theorem Matrix4_mul_Matrix4_columns:
  fixes m1 m2 :: "'a::{zero,one,plus,times} Matrix4"
  assumes "Matrix4_data m1 = Some d1" and "Matrix4_data m2 = Some d2"
  shows "\<exists>r. Matrix4_mul m1 (XMatrix4 m2) = Inr (AMatrix4 r)
           \<and> Matrix4_data r = Some (matrix_product d1 d2)
           \<and> Matrix4_c0 r = and_then (Matrix4_c0 m2) (Matrix4_mul_Vector4 m1)
           \<and> Matrix4_c1 r = and_then (Matrix4_c1 m2) (Matrix4_mul_Vector4 m1)
           \<and> Matrix4_c2 r = and_then (Matrix4_c2 m2) (Matrix4_mul_Vector4 m1)
           \<and> Matrix4_c3 r = and_then (Matrix4_c3 m2) (Matrix4_mul_Vector4 m1)
           \<and> Matrix4_c0 r = Inr (Vector4 (matrix_vector_product d1 (Data_c0 d2)))
           \<and> Matrix4_c1 r = Inr (Vector4 (matrix_vector_product d1 (Data_c1 d2)))
           \<and> Matrix4_c2 r = Inr (Vector4 (matrix_vector_product d1 (Data_c2 d2)))
           \<and> Matrix4_c3 r = Inr (Vector4 (matrix_vector_product d1 (Data_c3 d2)))"
proof -
  let ?r = "Matrix4 (Some (matrix_product d1 d2))"
  have res: "Matrix4_mul m1 (XMatrix4 m2) = Inr (AMatrix4 ?r)"
    using assms by (simp add: Matrix4_mul_Matrix4_Some and_then_Inr)
  have cols: "Matrix4_c0 ?r = Inr (Vector4 (matrix_vector_product d1 (Data_c0 d2)))"
    "Matrix4_c1 ?r = Inr (Vector4 (matrix_vector_product d1 (Data_c1 d2)))"
    "Matrix4_c2 ?r = Inr (Vector4 (matrix_vector_product d1 (Data_c2 d2)))"
    "Matrix4_c3 ?r = Inr (Vector4 (matrix_vector_product d1 (Data_c3 d2)))"
    by (simp_all add: Matrix4_columns_Some columns_of_matrix_product)
  have code: "and_then (Matrix4_c0 m2) (Matrix4_mul_Vector4 m1)
                = Inr (Vector4 (matrix_vector_product d1 (Data_c0 d2)))"
    "and_then (Matrix4_c1 m2) (Matrix4_mul_Vector4 m1)
                = Inr (Vector4 (matrix_vector_product d1 (Data_c1 d2)))"
    "and_then (Matrix4_c2 m2) (Matrix4_mul_Vector4 m1)
                = Inr (Vector4 (matrix_vector_product d1 (Data_c2 d2)))"
    "and_then (Matrix4_c3 m2) (Matrix4_mul_Vector4 m1)
                = Inr (Vector4 (matrix_vector_product d1 (Data_c3 d2)))"
    using assms by (simp_all add: Matrix4_columns_Some and_then_Inr Matrix4_mul_Vector4_Some)
  show ?thesis
    using res cols code by simp
qed

theorem Matrix4_mul_Matrix4_columns_witness:
  "Matrix4_data (Matrix4 (Some example_matrix)) = Some example_matrix
   \<and> Matrix4_data (Matrix4 (Some example_matrix2)) = Some example_matrix2
   \<and> (\<exists>r. Matrix4_mul (Matrix4 (Some example_matrix)) (XMatrix4 (Matrix4 (Some example_matrix2)))
             = Inr (AMatrix4 r)
          \<and> Matrix4_c0 r = Inr (Vector4 \<lparr>V4x = 5, V4y = 6, V4z = 7, V4w = 8\<rparr>)
          \<and> Matrix4_c1 r = Inr (Vector4 \<lparr>V4x = 2, V4y = 4, V4z = 6, V4w = 8\<rparr>)
          \<and> Matrix4_c2 r = Inr (Vector4 \<lparr>V4x = 22, V4y = 24, V4z = 26, V4w = 28\<rparr>)
          \<and> Matrix4_c3 r = Inr (Vector4 \<lparr>V4x = 28, V4y = 32, V4z = 36, V4w = 40\<rparr>))"
proof -
  have h1: "Matrix4_data (Matrix4 (Some example_matrix)) = Some example_matrix"
    by simp
  have h2: "Matrix4_data (Matrix4 (Some example_matrix2)) = Some example_matrix2"
    by simp
  from Matrix4_mul_Matrix4_columns [OF h1 h2]
  show ?thesis
    by (auto simp add: matrix_vector_product_def dot4_def Data_rows Data_columns
        example_matrix_def example_matrix2_def)
qed

text \<open>
  C3. The claim is that \<^verbatim>\<open>Matrix4.mul(m, v)\<close> returns the matrix-vector product for
  every \<^verbatim>\<open>Matrix4\<close> \<open>m\<close> and every \<^verbatim>\<open>Vector4\<close> \<open>v\<close>. The code does not on
  \<^verbatim>\<open>new Matrix4()\<close>, which the doc comment of the constructor calls the identity matrix:
  the constructor leaves \<^verbatim>\<open>data\<close> undefined, and \<^verbatim>\<open>Matrix4.mul(new Matrix4(), v)\<close> with
  \<open>v = (1, 2, 3, 4)\<close> throws when it reads \<^verbatim>\<open>m00\<close>. On the identity matrix of the host
  the same call returns \<open>v\<close>.
\<close>

theorem Matrix4_mul_Vector4_of_new_Matrix4:
  "and_then (Matrix4_new M4_none)
     (\<lambda>m. Matrix4_mul m (XVector4 (Vector4_new (V4_xyzw (1::real) 2 3 4))))
     = Inl ReadOfUndefined
   \<and> Matrix4_mul (Matrix4 (Some lua_vmath_matrix4))
         (XVector4 (Vector4_new (V4_xyzw (1::real) 2 3 4)))
       = Inr (AVector4 (Vector4_new (V4_xyzw 1 2 3 4)))"
  by (simp add: and_then_def Matrix4_mul_Vector4_def Let_def Vector4_getters
      lua_vmath_matrix4_def)

text \<open>
  C2. The claim is that \<^verbatim>\<open>Matrix4.mul(m1, m2)\<close> returns the matrix product, column by
  column, for every pair of \<^verbatim>\<open>Matrix4\<close> values. The code does not when either is
  \<^verbatim>\<open>new Matrix4()\<close>, the identity matrix by the doc comment of the constructor: its
  \<^verbatim>\<open>data\<close> is undefined, and the call throws at the first getter, on the right operand
  when it reads \<^verbatim>\<open>m2.c0\<close> and on the left one when it reads \<^verbatim>\<open>m1.m00\<close>. On the
  identity matrix of the host, the product with a matrix is that matrix.
\<close>

theorem Matrix4_mul_Matrix4_of_new_Matrix4:
  "and_then (Matrix4_new M4_none)
     (\<lambda>m2. Matrix4_mul (Matrix4 (Some example_matrix)) (XMatrix4 m2))
     = Inl ReadOfUndefined
   \<and> and_then (Matrix4_new M4_none)
       (\<lambda>m1. Matrix4_mul m1 (XMatrix4 (Matrix4 (Some example_matrix))))
       = Inl ReadOfUndefined
   \<and> Matrix4_mul (Matrix4 (Some example_matrix)) (XMatrix4 (Matrix4 (Some lua_vmath_matrix4)))
       = Inr (AMatrix4 (Matrix4 (Some example_matrix)))"
proof -
  have "Matrix4_mul_Matrix4 (Matrix4 (Some example_matrix)) (Matrix4 (Some lua_vmath_matrix4))
          = Inr (Matrix4 (Some (matrix_product example_matrix lua_vmath_matrix4)))"
    by (rule Matrix4_mul_Matrix4_Some) simp_all
  moreover have "matrix_product example_matrix lua_vmath_matrix4 = example_matrix"
    by (simp add: matrix_product_def dot4_def Data_rows Data_columns example_matrix_def
        lua_vmath_matrix4_def)
  ultimately show ?thesis
    by (simp add: and_then_def Matrix4_mul_Vector4_def Matrix4_mul_Matrix4_def Matrix4_c0_def)
qed

subsection \<open>Dispatch\<close>

text \<open>
  C4. For every \<^verbatim>\<open>Vector3\<close> \<open>a\<close> and every \<^verbatim>\<open>Vector4\<close> \<open>b\<close>, \<^verbatim>\<open>add(a, b)\<close> throws
  a \<^verbatim>\<open>TypeError\<close>; it returns no value, so no operand is truncated or coerced.
\<close>

theorem add_Vector3_Vector4_TypeError:
  fixes a :: "'a::{zero,plus} Vector3"
  shows "add (AVector3 a) (AVector4 b) = Inl (TypeError ''Vector3 should add Vector3'')"
  by (simp add: add_def)

text \<open>
  C6. For every \<^verbatim>\<open>Vector4\<close> \<open>v\<close> and every \<^verbatim>\<open>Matrix4\<close> \<open>m\<close>, the dispatched
  \<^verbatim>\<open>mul(v, m)\<close> is \<^verbatim>\<open>Matrix4.mul(m, v)\<close>, and so the same as \<^verbatim>\<open>mul(m, v)\<close>: the same
  value, or the same error when \<open>m\<close> has no host value.
\<close>

theorem mul_Vector4_Matrix4_redirected:
  fixes v :: "'a::{zero,one,plus,minus,times} Vector4"
  shows "mul (AVector4 v) (AMatrix4 m) = Matrix4_mul m (XVector4 v)
       \<and> mul (AVector4 v) (AMatrix4 m) = mul (AMatrix4 m) (AVector4 v)"
  by (simp add: mul_def)

text \<open>
  C10. A \<^verbatim>\<open>Quaternion\<close> operand is supported in \<^verbatim>\<open>mul(q, q2)\<close> only: for every
  quaternion \<open>q\<close>, number \<open>n\<close> and value \<open>b\<close>, the calls \<^verbatim>\<open>mul(q, n)\<close>, \<^verbatim>\<open>mul(n, q)\<close>,
  \<^verbatim>\<open>div(q, b)\<close>, \<^verbatim>\<open>add(q, b)\<close>, \<^verbatim>\<open>sub(q, b)\<close> and \<^verbatim>\<open>neg(q)\<close> throw a \<^verbatim>\<open>TypeError\<close>.
\<close>

theorem Quaternion_operand_TypeError:
  fixes q :: "'a::{zero,one,plus,minus,uminus,times,inverse} Quaternion"
  shows "mul (AQuaternion q) (ANumber n) = Inl (TypeError ''Quaternion should multiply Quaternion'')
       \<and> mul (ANumber n) (AQuaternion q)
           = Inl (TypeError ''number should multiply Vector3, Vector4 or Matrix4'')
       \<and> div_any (AQuaternion q) b = Inl (TypeError ''not supported'')
       \<and> add (AQuaternion q) b = Inl (TypeError ''not supported'')
       \<and> sub (AQuaternion q) b = Inl (TypeError ''not supported'')
       \<and> neg (AQuaternion q) = Inl (TypeError ''not supported'')
       \<and> mul (AQuaternion q) (AQuaternion q2) = Inr (AQuaternion (Quaternion_mul q q2))"
  by (simp add: mul_def div_any_def add_def sub_def neg_def)

lemmas signatures = add_signatures_def sub_signatures_def neg_signatures_def
  mul_signatures_def div_signatures_def






text \<open>
  The explicit \<^verbatim>\<open>throw TypeError(...)\<close> statements are reached by the undeclared
  combinations only.
\<close>

lemma declared_no_TypeError:
  fixes c :: "'a::{zero,one,plus,minus,uminus,times,inverse} call"
  assumes "declared c"
  shows "run c \<noteq> Inl (TypeError msg)"
proof (cases c)
  case (Call_add a b)
  with assms show ?thesis by (cases a; cases b) (simp_all add: add_def signatures)
next
  case (Call_sub a b)
  with assms show ?thesis by (cases a; cases b) (simp_all add: sub_def signatures)
next
  case (Call_neg a)
  with assms show ?thesis by (cases a) (simp_all add: neg_def signatures)
next
  case (Call_mul a b)
  with assms show ?thesis
    by (cases a; cases b)
       (auto simp add: mul_def signatures and_then_def Matrix4_mul_Vector4_def
          Matrix4_mul_Matrix4_def Matrix4_mul_number_def Matrix4_c0_def Matrix4_c1_def
          Matrix4_c2_def Matrix4_c3_def Matrix4_set_c0_def Matrix4_set_c1_def
          Matrix4_set_c2_def Matrix4_set_c3_def Let_def
          split: sum.splits option.splits)
next
  case (Call_div a b)
  with assms show ?thesis by (cases a; cases b) (simp_all add: div_any_def signatures)
qed




subsection \<open>Operands, results and setters in the store\<close>

lemma object_at_append_old: "r < length s \<Longrightarrow> object_at (s @ t) r = object_at s r"
  by (simp add: object_at_def nth_append)

lemma object_at_update:
  "object_at (s[r := ob]) r' = (if r' = r \<and> r < length s then Some ob else object_at s r')"
  by (simp add: object_at_def)

lemma keeps_append: "keeps s s' \<Longrightarrow> s' = s @ drop (length s) s'"
  by (metis append_take_drop_id keeps_def)

lemma object_at_keeps:
  assumes "keeps s s'" and "object_at s r = Some ob"
  shows "object_at s' r = Some ob"
proof -
  from assms(2) have "r < length s"
    by (simp add: object_at_def split: if_splits)
  then have "object_at (s @ drop (length s) s') r = object_at s r"
    by (rule object_at_append_old)
  with keeps_append [OF assms(1)] assms(2) show ?thesis
    by simp
qed

lemma is_Vector3_iff:
  "is_Vector3 s v d \<longleftrightarrow>
     (\<exists>r. object_at s v = Some (IVector3 r) \<and> object_at s r = Some (HVector3 d))"
  by (auto simp add: is_Vector3_def split: option.splits object.splits)

lemma is_Vector4_iff:
  "is_Vector4 s v d \<longleftrightarrow>
     (\<exists>r. object_at s v = Some (IVector4 r) \<and> object_at s r = Some (HVector4 d))"
  by (auto simp add: is_Vector4_def split: option.splits object.splits)

lemma is_Matrix4_iff:
  "is_Matrix4 s m d \<longleftrightarrow>
     (\<exists>r. object_at s m = Some (IMatrix4 (Some r)) \<and> object_at s r = Some (HMatrix4 d))"
  by (auto simp add: is_Matrix4_def split: option.splits object.splits)

lemma is_Vector3_keeps:
  assumes "keeps s s'" and "is_Vector3 s v d"
  shows "is_Vector3 s' v d"
proof -
  from assms(2) obtain r where "object_at s v = Some (IVector3 r)"
    and "object_at s r = Some (HVector3 d)"
    by (auto simp add: is_Vector3_iff)
  then have "object_at s' v = Some (IVector3 r)" and "object_at s' r = Some (HVector3 d)"
    using assms(1) by (auto intro: object_at_keeps)
  then show ?thesis
    by (auto simp add: is_Vector3_iff)
qed

lemma is_Vector3_reads:
  assumes "is_Vector3 s v d"
  shows "Vector3_x_st s v = Inr (V3x d)" and "Vector3_y_st s v = Inr (V3y d)"
    and "Vector3_z_st s v = Inr (V3z d)"
  using assms
  by (auto simp add: is_Vector3_iff Vector3_x_st_def Vector3_y_st_def Vector3_z_st_def
      Vector3_data_st_def host_Vector3_def and_then_def)

lemma new_Vector3_of_fresh:
  "new_Vector3_of d s = Inr (Suc (length s), s @ [HVector3 d, IVector3 (length s)])"
  by (simp add: new_Vector3_of_def alloc_def)

lemma new_Vector3_of_new:
  "\<exists>this s'. new_Vector3_of d s = Inr (this, s') \<and> new_instance s s' this
      \<and> is_Vector3 s' this d"
  by (simp add: new_Vector3_of_fresh new_instance_def object_at_def keeps_def is_Vector3_def
      nth_append)

text \<open>
  In the store, each operator reads its operands and hands what the definition on
  values computes to the constructor.
\<close>

lemma Vector3_add_st_result:
  assumes "is_Vector3 s v1 d1" and "is_Vector3 s v2 d2"
  shows "Vector3_add_st v1 v2 s =
           new_Vector3_of (Vector3_data (Vector3_add (Vector3 d1) (Vector3 d2))) s"
  using is_Vector3_reads [OF assms(1)] is_Vector3_reads [OF assms(2)]
  by (simp add: Vector3_add_st_def Vector3_add_def and_then_Inr Vector3_getters)

lemma Vector3_sub_st_result:
  assumes "is_Vector3 s v1 d1" and "is_Vector3 s v2 d2"
  shows "Vector3_sub_st v1 v2 s =
           new_Vector3_of (Vector3_data (Vector3_sub (Vector3 d1) (Vector3 d2))) s"
  using is_Vector3_reads [OF assms(1)] is_Vector3_reads [OF assms(2)]
  by (simp add: Vector3_sub_st_def Vector3_sub_def and_then_Inr Vector3_getters)

lemma Vector3_neg_st_result:
  assumes "is_Vector3 s v1 d1"
  shows "Vector3_neg_st v1 s = new_Vector3_of (Vector3_data (Vector3_neg (Vector3 d1))) s"
  using is_Vector3_reads [OF assms(1)]
  by (simp add: Vector3_neg_st_def Vector3_neg_def and_then_Inr Vector3_getters)

lemma Vector3_mul_st_result:
  assumes "is_Vector3 s v1 d1"
  shows "Vector3_mul_st v1 n s = new_Vector3_of (Vector3_data (Vector3_mul (Vector3 d1) n)) s"
  using is_Vector3_reads [OF assms(1)]
  by (simp add: Vector3_mul_st_def Vector3_mul_def and_then_Inr Vector3_getters)

lemma Vector3_div_st_result:
  assumes "is_Vector3 s v1 d1"
  shows "Vector3_div_st v1 n s = new_Vector3_of (Vector3_data (Vector3_div (Vector3 d1) n)) s"
  using Vector3_mul_st_result [OF assms]
  by (simp add: Vector3_div_st_def Vector3_div_def)

lemma operator_frame:
  assumes "res = new_Vector3_of d s" and "is_Vector3 s v1 d1" and "is_Vector3 s v2 d2"
  shows "\<exists>this s'. res = Inr (this, s') \<and> new_instance s s' this \<and> this \<noteq> v1 \<and> this \<noteq> v2
           \<and> is_Vector3 s' v1 d1 \<and> is_Vector3 s' v2 d2 \<and> is_Vector3 s' this d"
proof -
  from new_Vector3_of_new [of d s] assms(1) obtain this s'
    where r: "res = Inr (this, s')" and n: "new_instance s s' this" and i: "is_Vector3 s' this d"
    by auto
  from n have k: "keeps s s'" and f: "object_at s this = None"
    by (simp_all add: new_instance_def)
  from f assms(2,3) have "this \<noteq> v1" and "this \<noteq> v2"
    by (auto simp add: is_Vector3_iff)
  moreover from k assms(2,3) have "is_Vector3 s' v1 d1" and "is_Vector3 s' v2 d2"
    by (auto intro: is_Vector3_keeps)
  ultimately show ?thesis
    using r n i by simp
qed

lemma host_Vector3_written:
  assumes "object_at s v = Some (IVector3 r)" and "object_at s r = Some (HVector3 d)"
  shows "object_at (s[r := HVector3 d']) v = Some (IVector3 r)"
    and "object_at (s[r := HVector3 d']) r = Some (HVector3 d')"
proof -
  from assms have "v \<noteq> r"
    by auto
  moreover from assms(2) have "r < length s"
    by (simp add: object_at_def split: if_splits)
  ultimately show "object_at (s[r := HVector3 d']) v = Some (IVector3 r)"
    and "object_at (s[r := HVector3 d']) r = Some (HVector3 d')"
    using assms(1) by (simp_all add: object_at_update)
qed

lemma Vector3_setters_in_place:
  assumes "is_Vector3 s v d"
  shows "\<exists>r. Vector3_data_st s v = Inr r
           \<and> Vector3_set_x_st v n s = Inr (s[r := HVector3 (d\<lparr>V3x := n\<rparr>)])
           \<and> Vector3_set_y_st v n s = Inr (s[r := HVector3 (d\<lparr>V3y := n\<rparr>)])
           \<and> Vector3_set_z_st v n s = Inr (s[r := HVector3 (d\<lparr>V3z := n\<rparr>)])
           \<and> (\<forall>d'. Vector3_data_st (s[r := HVector3 d']) v = Inr r
                   \<and> is_Vector3 (s[r := HVector3 d']) v d')"
proof -
  from assms obtain r where v: "object_at s v = Some (IVector3 r)"
    and h: "object_at s r = Some (HVector3 d)"
    by (auto simp add: is_Vector3_iff)
  have "Vector3_set_x_st v n s = Inr (s[r := HVector3 (d\<lparr>V3x := n\<rparr>)])"
    and "Vector3_set_y_st v n s = Inr (s[r := HVector3 (d\<lparr>V3y := n\<rparr>)])"
    and "Vector3_set_z_st v n s = Inr (s[r := HVector3 (d\<lparr>V3z := n\<rparr>)])"
    using v h
    by (simp_all add: Vector3_set_x_st_def Vector3_set_y_st_def Vector3_set_z_st_def
        Vector3_data_st_def host_Vector3_def and_then_Inr)
  then show ?thesis
    using v host_Vector3_written [OF v h]
    by (simp add: Vector3_data_st_def is_Vector3_iff)
qed

lemma Matrix4_set_c0_st_in_place:
  assumes "is_Matrix4 s m dm" and "is_Vector4 s c dc"
  shows "\<exists>r s'. Matrix4_data_st s m = Inr r \<and> Matrix4_set_c0_st m c s = Inr s'
           \<and> s' = s[r := HMatrix4 (Data_set_c0 dm dc)] \<and> Matrix4_data_st s' m = Inr r
           \<and> is_Matrix4 s' m (Data_set_c0 dm dc)"
proof -
  from assms(1) obtain r where v: "object_at s m = Some (IMatrix4 (Some r))"
    and h: "object_at s r = Some (HMatrix4 dm)"
    by (auto simp add: is_Matrix4_iff)
  from assms(2) obtain rc where vc: "object_at s c = Some (IVector4 rc)"
    and hc: "object_at s rc = Some (HVector4 dc)"
    by (auto simp add: is_Vector4_iff)
  from v h have ne: "m \<noteq> r"
    by auto
  from h have lt: "r < length s"
    by (simp add: object_at_def split: if_splits)
  let ?s' = "s[r := HMatrix4 (Data_set_c0 dm dc)]"
  have "Matrix4_set_c0_st m c s = Inr ?s'"
    using v h vc hc
    by (simp add: Matrix4_set_c0_st_def Matrix4_data_st_def host_Matrix4_def
        Vector4_data_st_def host_Vector4_def and_then_Inr)
  moreover have "object_at ?s' m = Some (IMatrix4 (Some r))"
    and "object_at ?s' r = Some (HMatrix4 (Data_set_c0 dm dc))"
    using v ne lt by (simp_all add: object_at_update)
  ultimately show ?thesis
    using v by (simp add: Matrix4_data_st_def is_Matrix4_iff)
qed


text \<open>
  C8. Let \<open>v1\<close> and \<open>v2\<close> be instances of \<^verbatim>\<open>Vector3\<close> in a store \<open>s\<close>, with components
  \<open>d1\<close> and \<open>d2\<close>. Each of \<^verbatim>\<open>Vector3.add(v1, v2)\<close>, \<^verbatim>\<open>sub\<close>, \<^verbatim>\<open>neg\<close>, \<^verbatim>\<open>mul\<close> and
  \<^verbatim>\<open>div\<close> returns an instance that is not an object of \<open>s\<close> (nor is its host value),
  different from \<open>v1\<close> and \<open>v2\<close>, and leaves every object of \<open>s\<close> as it was: \<open>v1\<close> and
  \<open>v2\<close> still have the components \<open>d1\<close> and \<open>d2\<close>. A setter allocates nothing and
  writes to the host value that the instance's own \<^verbatim>\<open>data\<close> refers to: after
  \<^verbatim>\<open>v1.x = n\<close> (likewise \<^verbatim>\<open>y\<close>, \<^verbatim>\<open>z\<close>) the store differs at that one reference, and
  \<open>v1\<close>, with the same \<^verbatim>\<open>data\<close>, has the new component; after \<^verbatim>\<open>m.c0 = c\<close> on a
  \<^verbatim>\<open>Matrix4\<close> the host value of \<open>m\<close> has the components of \<open>c\<close> as its column 0.
\<close>

theorem operators_allocate_setters_write_in_place:
  fixes s :: "'a::{zero,one,plus,minus,uminus,times,inverse} store"
  assumes "is_Vector3 s v1 d1" and "is_Vector3 s v2 d2"
    and "is_Matrix4 s m dm" and "is_Vector4 s c dc"
  shows "(\<exists>this s'. Vector3_add_st v1 v2 s = Inr (this, s') \<and> new_instance s s' this
            \<and> this \<noteq> v1 \<and> this \<noteq> v2 \<and> is_Vector3 s' v1 d1 \<and> is_Vector3 s' v2 d2
            \<and> is_Vector3 s' this (Vector3_data (Vector3_add (Vector3 d1) (Vector3 d2))))
       \<and> (\<exists>this s'. Vector3_sub_st v1 v2 s = Inr (this, s') \<and> new_instance s s' this
            \<and> this \<noteq> v1 \<and> this \<noteq> v2 \<and> is_Vector3 s' v1 d1 \<and> is_Vector3 s' v2 d2
            \<and> is_Vector3 s' this (Vector3_data (Vector3_sub (Vector3 d1) (Vector3 d2))))
       \<and> (\<exists>this s'. Vector3_neg_st v1 s = Inr (this, s') \<and> new_instance s s' this
            \<and> this \<noteq> v1 \<and> this \<noteq> v2 \<and> is_Vector3 s' v1 d1 \<and> is_Vector3 s' v2 d2
            \<and> is_Vector3 s' this (Vector3_data (Vector3_neg (Vector3 d1))))
       \<and> (\<exists>this s'. Vector3_mul_st v1 n s = Inr (this, s') \<and> new_instance s s' this
            \<and> this \<noteq> v1 \<and> this \<noteq> v2 \<and> is_Vector3 s' v1 d1 \<and> is_Vector3 s' v2 d2
            \<and> is_Vector3 s' this (Vector3_data (Vector3_mul (Vector3 d1) n)))
       \<and> (\<exists>this s'. Vector3_div_st v1 n s = Inr (this, s') \<and> new_instance s s' this
            \<and> this \<noteq> v1 \<and> this \<noteq> v2 \<and> is_Vector3 s' v1 d1 \<and> is_Vector3 s' v2 d2
            \<and> is_Vector3 s' this (Vector3_data (Vector3_div (Vector3 d1) n)))
       \<and> (\<exists>r. Vector3_data_st s v1 = Inr r
            \<and> Vector3_set_x_st v1 n s = Inr (s[r := HVector3 (d1\<lparr>V3x := n\<rparr>)])
            \<and> Vector3_set_y_st v1 n s = Inr (s[r := HVector3 (d1\<lparr>V3y := n\<rparr>)])
            \<and> Vector3_set_z_st v1 n s = Inr (s[r := HVector3 (d1\<lparr>V3z := n\<rparr>)])
            \<and> (\<forall>d'. Vector3_data_st (s[r := HVector3 d']) v1 = Inr r
                    \<and> is_Vector3 (s[r := HVector3 d']) v1 d'))
       \<and> (\<exists>r s'. Matrix4_data_st s m = Inr r \<and> Matrix4_set_c0_st m c s = Inr s'
            \<and> s' = s[r := HMatrix4 (Data_set_c0 dm dc)] \<and> Matrix4_data_st s' m = Inr r
            \<and> is_Matrix4 s' m (Data_set_c0 dm dc))"
  using operator_frame [OF Vector3_add_st_result [OF assms(1,2)] assms(1,2)]
    operator_frame [OF Vector3_sub_st_result [OF assms(1,2)] assms(1,2)]
    operator_frame [OF Vector3_neg_st_result [OF assms(1)] assms(1,2)]
    operator_frame [OF Vector3_mul_st_result [OF assms(1)] assms(1,2)]
    operator_frame [OF Vector3_div_st_result [OF assms(1)] assms(1,2)]
    Vector3_setters_in_place [OF assms(1)]
    Matrix4_set_c0_st_in_place [OF assms(3,4)]
  by blast

theorem operators_allocate_setters_write_in_place_witness:
  "is_Vector3 example_store 1 \<lparr>V3x = 1, V3y = 2, V3z = 3\<rparr>
   \<and> is_Vector3 example_store 3 \<lparr>V3x = 4, V3y = 5, V3z = 6\<rparr>
   \<and> is_Matrix4 example_store 5 example_matrix
   \<and> is_Vector4 example_store 7 example_vector
   \<and> Vector3_add_st 1 3 example_store
       = Inr (9, example_store @ [HVector3 \<lparr>V3x = 5, V3y = 7, V3z = 9\<rparr>, IVector3 8])
   \<and> Vector3_set_x_st 1 10 example_store
       = Inr (example_store[0 := HVector3 \<lparr>V3x = 10, V3y = 2, V3z = 3\<rparr>])
   \<and> Matrix4_set_c0_st 5 7 example_store
       = Inr (example_store[4 := HMatrix4 (example_matrix\<lparr>m00 := 1, m01 := 0, m02 := 2, m03 := 0\<rparr>)])"
proof -
  have h1: "is_Vector3 example_store 1 \<lparr>V3x = 1, V3y = 2, V3z = 3\<rparr>"
    and h2: "is_Vector3 example_store 3 \<lparr>V3x = 4, V3y = 5, V3z = 6\<rparr>"
    and h3: "is_Matrix4 example_store 5 example_matrix"
    and h4: "is_Vector4 example_store 7 example_vector"
    by (simp_all add: is_Vector3_def is_Matrix4_def is_Vector4_def object_at_def
        example_store_def)
  have len: "length example_store = 8"
    by (simp add: example_store_def)
  have add: "Vector3_add_st 1 3 example_store
               = Inr (9, example_store @ [HVector3 \<lparr>V3x = 5, V3y = 7, V3z = 9\<rparr>, IVector3 8])"
    by (subst Vector3_add_st_result [OF h1 h2])
       (simp add: new_Vector3_of_fresh Vector3_add_def Vector3_getters len)
  have set_x: "Vector3_set_x_st 1 10 example_store
                 = Inr (example_store[0 := HVector3 \<lparr>V3x = 10, V3y = 2, V3z = 3\<rparr>])"
    by (simp add: Vector3_set_x_st_def Vector3_data_st_def host_Vector3_def and_then_Inr
        object_at_def example_store_def)
  have set_c0: "Matrix4_set_c0_st 5 7 example_store
                  = Inr (example_store[4 := HMatrix4
                      (example_matrix\<lparr>m00 := 1, m01 := 0, m02 := 2, m03 := 0\<rparr>)])"
    by (simp add: Matrix4_set_c0_st_def Matrix4_data_st_def host_Matrix4_def
        Vector4_data_st_def host_Vector4_def and_then_Inr object_at_def example_store_def
        Data_set_c0_def example_vector_def)
  from operators_allocate_setters_write_in_place [OF h1 h2 h3 h4, of 10]
  show ?thesis
    using h1 h2 h3 h4 add set_x set_c0 by simp
qed

text \<open>
  C9. For every instance \<open>v\<close> of \<^verbatim>\<open>Vector3\<close> with components \<open>d\<close>,
  \<^verbatim>\<open>new Vector3(v.data)\<close> is an instance whose \<^verbatim>\<open>x\<close>, \<^verbatim>\<open>y\<close> and \<^verbatim>\<open>z\<close> read exactly
  the components of \<open>v\<close>: it refers to the very host value of \<open>v\<close>, and the store is
  otherwise as it was. The same on values: the getters of
  \<^verbatim>\<open>new Vector3(u.data)\<close> return those of \<open>u\<close>.
\<close>

theorem Vector3_from_backing_data:
  fixes s :: "'a::zero store" and u :: "'a Vector3"
  assumes "is_Vector3 s v d"
  shows "(\<exists>r this s'. Vector3_data_st s v = Inr r
            \<and> Vector3_new_st (S3_data r) s = Inr (this, s')
            \<and> Vector3_data_st s' this = Inr r \<and> keeps s s'
            \<and> Vector3_x_st s' this = Inr (V3x d) \<and> Vector3_x_st s v = Inr (V3x d)
            \<and> Vector3_y_st s' this = Inr (V3y d) \<and> Vector3_y_st s v = Inr (V3y d)
            \<and> Vector3_z_st s' this = Inr (V3z d) \<and> Vector3_z_st s v = Inr (V3z d))
       \<and> Vector3_x (Vector3_new (V3_data (Vector3_data u))) = Vector3_x u
       \<and> Vector3_y (Vector3_new (V3_data (Vector3_data u))) = Vector3_y u
       \<and> Vector3_z (Vector3_new (V3_data (Vector3_data u))) = Vector3_z u"
proof -
  from assms obtain r where v: "object_at s v = Some (IVector3 r)"
    and h: "object_at s r = Some (HVector3 d)"
    by (auto simp add: is_Vector3_iff)
  let ?s' = "s @ [IVector3 r]"
  have k: "keeps s ?s'"
    by (simp add: keeps_def)
  have new: "Vector3_new_st (S3_data r) s = Inr (length s, ?s')"
    by (simp add: alloc_def)
  have inst: "object_at ?s' (length s) = Some (IVector3 r)"
    by (simp add: object_at_def)
  from k h have "object_at ?s' r = Some (HVector3 d)"
    by (rule object_at_keeps)
  with inst have new_is: "is_Vector3 ?s' (length s) d"
    by (simp add: is_Vector3_iff)
  from is_Vector3_reads [OF new_is] is_Vector3_reads [OF assms] v new k inst
  show ?thesis
    by (simp add: Vector3_data_st_def Vector3_getters)
qed

theorem Vector3_from_backing_data_witness:
  "is_Vector3 example_store 3 \<lparr>V3x = 4, V3y = 5, V3z = 6\<rparr>
   \<and> Vector3_data_st example_store 3 = Inr 2
   \<and> Vector3_new_st (S3_data 2) example_store = Inr (8, example_store @ [IVector3 2])
   \<and> Vector3_x_st (example_store @ [IVector3 2]) 8 = Inr 4
   \<and> Vector3_y_st (example_store @ [IVector3 2]) 8 = Inr 5
   \<and> Vector3_z_st (example_store @ [IVector3 2]) 8 = Inr 6"
proof -
  have h: "is_Vector3 example_store 3 \<lparr>V3x = 4, V3y = 5, V3z = 6\<rparr>"
    by (simp add: is_Vector3_def object_at_def example_store_def)
  have d: "Vector3_data_st example_store 3 = Inr 2"
    by (simp add: Vector3_data_st_def object_at_def example_store_def)
  have len: "length example_store = 8"
    by (simp add: example_store_def)
  have new: "Vector3_new_st (S3_data 2) example_store = Inr (8, example_store @ [IVector3 2])"
    by (simp add: alloc_def len)
  have reads: "Vector3_x_st (example_store @ [IVector3 2]) 8 = Inr 4"
    "Vector3_y_st (example_store @ [IVector3 2]) 8 = Inr 5"
    "Vector3_z_st (example_store @ [IVector3 2]) 8 = Inr 6"
    by (simp_all add: Vector3_x_st_def Vector3_y_st_def Vector3_z_st_def Vector3_data_st_def
        host_Vector3_def and_then_Inr object_at_def example_store_def)
  from Vector3_from_backing_data [OF h] show ?thesis
    using h d new reads by simp
qed


end
